theory Spec2Isabelle
  imports Main "HOL-Library.Word"
begin

text \<open>
  A model of \<open>lib/pan/wfapi.py\<close>, the client of the WildFire API: the multipart form
  (\<open>_FormDataPart\<close>, \<open>_MultiPartFormData\<close>), the classification of a response by its
  content type, the exchange, and the nine operations of \<open>PanWFapi\<close>. The fields of
  the instance are a record passed through every function; an exception is a value; the
  requests made and the files read are returned as a list of events; the network, the file
  system, the random source, the XML parser and the table of reason phrases are parameters.
\<close>

section \<open>Python values used by \<open>pan/wfapi.py\<close>\<close>

text \<open>
  A Python \<open>str\<close> is a sequence of Unicode code points, a \<open>bytes\<close> object a sequence
  of octets. Literals of the source are written \<open>S ''...''\<close> and \<open>B ''...''\<close>.
\<close>

type_synonym str = "nat list"
type_synonym byte = "8 word"
type_synonym bytes = "byte list"

definition S :: "string \<Rightarrow> str" where
  "S s = map of_char s"

definition B :: "string \<Rightarrow> bytes" where
  "B s = map of_char s"

definition CRLF :: bytes where
  "CRLF = [13, 10]"

datatype exception =
    PanWFapiError "str option"
  | UnicodeEncodeError
  | UnicodeDecodeError
  | TypeError
  | IndexError
  | AttributeError
  | UnboundLocalError

text \<open>\<open>sep.join(xs)\<close>, for \<open>str\<close> and for \<open>bytes\<close>.\<close>

fun join :: "'a list \<Rightarrow> 'a list list \<Rightarrow> 'a list" where
  "join sep [] = []"
| "join sep [x] = x"
| "join sep (x # y # ys) = x @ sep @ join sep (y # ys)"

text \<open>\<open>'%s' % n\<close> for an integer: its decimal digits, with a sign.\<close>

fun digits :: "nat \<Rightarrow> str" where
  "digits n = (if n < 10 then [48 + n] else digits (n div 10) @ [48 + n mod 10])"

definition str_of_int :: "int \<Rightarrow> str" where
  "str_of_int i = (if i < 0 then S ''-'' @ digits (nat (- i)) else digits (nat i))"

subsection \<open>Codecs\<close>

text \<open>
  \<open>s.encode('utf-8')\<close>, \<open>s.encode('latin-1')\<close>, \<open>s.encode('ascii')\<close> and
  \<open>b.decode('utf-8')\<close>, \<open>b.decode('ascii')\<close> in strict mode; \<open>None\<close> stands for the
  UnicodeEncodeError or UnicodeDecodeError they raise.
\<close>

definition utf8_char :: "nat \<Rightarrow> bytes option" where
  "utf8_char c =
     (if c < 0x80 then Some [of_nat c]
      else if c < 0x800 then Some [0xC0 + of_nat (c div 0x40), 0x80 + of_nat (c mod 0x40)]
      else if c < 0x10000 then
        (if 0xD800 \<le> c \<and> c < 0xE000 then None
         else Some [0xE0 + of_nat (c div 0x1000), 0x80 + of_nat (c div 0x40 mod 0x40),
                    0x80 + of_nat (c mod 0x40)])
      else if c < 0x110000 then
        Some [0xF0 + of_nat (c div 0x40000), 0x80 + of_nat (c div 0x1000 mod 0x40),
              0x80 + of_nat (c div 0x40 mod 0x40), 0x80 + of_nat (c mod 0x40)]
      else None)"

fun utf8_encode :: "str \<Rightarrow> bytes option" where
  "utf8_encode [] = Some []"
| "utf8_encode (c # cs) =
     (case utf8_char c of None \<Rightarrow> None
      | Some bs \<Rightarrow> (case utf8_encode cs of None \<Rightarrow> None | Some r \<Rightarrow> Some (bs @ r)))"

definition latin1_encode :: "str \<Rightarrow> bytes option" where
  "latin1_encode s = (if list_all (\<lambda>c. c < 0x100) s then Some (map of_nat s) else None)"

definition ascii_encode :: "str \<Rightarrow> bytes option" where
  "ascii_encode s = (if list_all (\<lambda>c. c < 0x80) s then Some (map of_nat s) else None)"

definition ascii_decode :: "bytes \<Rightarrow> str option" where
  "ascii_decode bs = (if list_all (\<lambda>b. b < 0x80) bs then Some (map unat bs) else None)"

definition cont :: "byte \<Rightarrow> bool" where
  "cont b = (0x80 \<le> b \<and> b \<le> 0xBF)"

definition low6 :: "byte \<Rightarrow> nat" where
  "low6 b = unat b mod 0x40"

fun utf8_decode :: "bytes \<Rightarrow> str option" where
  "utf8_decode [] = Some []"
| "utf8_decode (b0 # bs) =
     (if b0 < 0x80 then map_option ((#) (unat b0)) (utf8_decode bs)
      else if 0xC2 \<le> b0 \<and> b0 \<le> 0xDF then
        (case bs of
           b1 # r \<Rightarrow>
             if cont b1
             then map_option ((#) ((unat b0 mod 0x20) * 0x40 + low6 b1)) (utf8_decode r)
             else None
         | _ \<Rightarrow> None)
      else if 0xE0 \<le> b0 \<and> b0 \<le> 0xEF then
        (case bs of
           b1 # b2 # r \<Rightarrow>
             if cont b1 \<and> cont b2 \<and> (b0 = 0xE0 \<longrightarrow> 0xA0 \<le> b1) \<and> (b0 = 0xED \<longrightarrow> b1 \<le> 0x9F)
             then map_option ((#) ((unat b0 mod 0x10) * 0x1000 + low6 b1 * 0x40 + low6 b2))
                    (utf8_decode r)
             else None
         | _ \<Rightarrow> None)
      else if 0xF0 \<le> b0 \<and> b0 \<le> 0xF4 then
        (case bs of
           b1 # b2 # b3 # r \<Rightarrow>
             if cont b1 \<and> cont b2 \<and> cont b3 \<and> (b0 = 0xF0 \<longrightarrow> 0x90 \<le> b1)
                \<and> (b0 = 0xF4 \<longrightarrow> b1 \<le> 0x8F)
             then map_option ((#) ((unat b0 mod 0x08) * 0x40000 + low6 b1 * 0x1000
                                   + low6 b2 * 0x40 + low6 b3))
                    (utf8_decode r)
             else None
         | _ \<Rightarrow> None)
      else None)"

subsection \<open>\<open>urllib.parse\<close>: \<open>quote\<close>, \<open>quote_plus\<close>, \<open>urlencode\<close>\<close>

definition always_safe :: "byte \<Rightarrow> bool" where
  "always_safe b =
     ((0x41 \<le> b \<and> b \<le> 0x5A) \<or> (0x61 \<le> b \<and> b \<le> 0x7A) \<or> (0x30 \<le> b \<and> b \<le> 0x39)
      \<or> b = 0x5F \<or> b = 0x2E \<or> b = 0x2D \<or> b = 0x7E)"

definition hexdigit :: "nat \<Rightarrow> nat" where
  "hexdigit n = (if n < 10 then 48 + n else 55 + n)"

definition quote_byte :: "byte \<Rightarrow> str" where
  "quote_byte b =
     (if always_safe b then [unat b]
      else [37, hexdigit (unat b div 16), hexdigit (unat b mod 16)])"

definition quote_plus_byte :: "byte \<Rightarrow> str" where
  "quote_plus_byte b = (if b = 0x20 then S ''+'' else quote_byte b)"

definition quote :: "str \<Rightarrow> str option" where
  "quote s = map_option (\<lambda>bs. concat (map quote_byte bs)) (utf8_encode s)"

definition quote_plus :: "str \<Rightarrow> str option" where
  "quote_plus s = map_option (\<lambda>bs. concat (map quote_plus_byte bs)) (utf8_encode s)"

fun urlencode_items :: "(str \<times> str) list \<Rightarrow> str list option" where
  "urlencode_items [] = Some []"
| "urlencode_items ((k, v) # q) =
     (case quote_plus k of None \<Rightarrow> None
      | Some k' \<Rightarrow>
        (case quote_plus v of None \<Rightarrow> None
         | Some v' \<Rightarrow>
           (case urlencode_items q of None \<Rightarrow> None
            | Some l \<Rightarrow> Some ((k' @ S ''='' @ v') # l))))"

definition urlencode :: "(str \<times> str) list \<Rightarrow> str option" where
  "urlencode q = map_option (join (S ''&'')) (urlencode_items q)"

text \<open>A \<open>dict\<close> in insertion order: \<open>query[k] = v\<close>.\<close>

fun setitem :: "('k \<times> 'v) list \<Rightarrow> 'k \<Rightarrow> 'v \<Rightarrow> ('k \<times> 'v) list" where
  "setitem [] k v = [(k, v)]"
| "setitem ((k', v') # q) k v = (if k' = k then (k, v) # q else (k', v') # setitem q k v)"

subsection \<open>\<open>base64.b64encode\<close> and \<open>os.path.basename\<close>\<close>

definition b64char :: "nat \<Rightarrow> byte" where
  "b64char n =
     (if n < 26 then of_nat (65 + n)
      else if n < 52 then of_nat (71 + n)
      else if n < 62 then of_nat (n - 4)
      else if n = 62 then 0x2B else 0x2F)"

fun b64encode :: "bytes \<Rightarrow> bytes" where
  "b64encode [] = []"
| "b64encode [a] =
     [b64char (unat a div 4), b64char (unat a mod 4 * 16), 0x3D, 0x3D]"
| "b64encode [a, b] =
     [b64char (unat a div 4), b64char (unat a mod 4 * 16 + unat b div 16),
      b64char (unat b mod 16 * 4), 0x3D]"
| "b64encode (a # b # c # r) =
     [b64char (unat a div 4), b64char (unat a mod 4 * 16 + unat b div 16),
      b64char (unat b mod 16 * 4 + unat c div 64), b64char (unat c mod 64)] @ b64encode r"

definition basename :: "str \<Rightarrow> str" where
  "basename p = rev (takeWhile (\<lambda>c. c \<noteq> 47) (rev p))"

section \<open>Multipart form data: \<open>_FormDataPart\<close> and \<open>_MultiPartFormData\<close>\<close>

text \<open>The module constant \<open>_rfc2231_encode\<close>.\<close>

definition rfc2231_encode :: bool where
  "rfc2231_encode = False"

text \<open>A value that is either a \<open>str\<close> or a \<open>bytes\<close> object (\<open>isinstance(body, str)\<close>).\<close>

datatype pybody = Str str | Bytes bytes

record part =
  headers :: "bytes list"
  body :: "bytes option"

definition encode_rfc2231 :: "str \<Rightarrow> str option" where
  "encode_rfc2231 v = map_option (\<lambda>q. S ''utf-8'' @ [39] @ [39] @ q) (quote v)"

definition encode_field :: "str \<Rightarrow> str \<Rightarrow> exception + bytes" where
  "encode_field name v =
     (if \<not> rfc2231_encode then
        (case utf8_encode (name @ S ''='' @ [34] @ v @ [34]) of
           None \<Rightarrow> Inl UnicodeEncodeError
         | Some s \<Rightarrow> Inr s)
      else
        (case (if \<not> (13 \<in> set v \<or> 10 \<in> set v \<or> 92 \<in> set v)
               then ascii_encode (name @ S ''='' @ [34] @ v @ [34]) else None) of
           Some s \<Rightarrow> Inr s
         | None \<Rightarrow>
           (case encode_rfc2231 v of
              None \<Rightarrow> Inl UnicodeEncodeError
            | Some v' \<Rightarrow>
              (case ascii_encode (name @ S ''*='' @ v') of
                 None \<Rightarrow> Inl UnicodeEncodeError
               | Some s \<Rightarrow> Inr s))))"

definition add_header :: "bytes \<Rightarrow> part \<Rightarrow> part" where
  "add_header h p = p\<lparr>headers := headers p @ [h]\<rparr>"

text \<open>\<open>self.headers[-1] += b'; ' + self._encode_field(name, value)\<close>\<close>

definition append_header :: "str \<Rightarrow> str \<Rightarrow> part \<Rightarrow> exception + part" where
  "append_header name v p =
     (case encode_field name v of
        Inl e \<Rightarrow> Inl e
      | Inr f \<Rightarrow>
        (if headers p = [] then Inl IndexError
         else Inr (p\<lparr>headers := butlast (headers p) @ [last (headers p) @ B ''; '' @ f]\<rparr>)))"

definition add_body :: "pybody \<Rightarrow> part \<Rightarrow> exception + part" where
  "add_body b p =
     (case b of
        Str s \<Rightarrow>
          (case latin1_encode s of
             None \<Rightarrow> Inl UnicodeEncodeError
           | Some bs \<Rightarrow> Inr (p\<lparr>body := Some bs\<rparr>))
      | Bytes bs \<Rightarrow> Inr (p\<lparr>body := Some bs\<rparr>))"

text \<open>\<open>_FormDataPart.__init__(name, body)\<close>\<close>

definition FormDataPart :: "str \<Rightarrow> pybody option \<Rightarrow> exception + part" where
  "FormDataPart name b =
     (case append_header (S ''name'') name
             (add_header (B ''Content-Disposition: form-data'') \<lparr>headers = [], body = None\<rparr>) of
        Inl e \<Rightarrow> Inl e
      | Inr p \<Rightarrow> (case b of None \<Rightarrow> Inr p | Some v \<Rightarrow> add_body v p))"

definition serialize :: "part \<Rightarrow> bytes" where
  "serialize p =
     join CRLF (headers p) @ CRLF @ CRLF @ (case body p of None \<Rightarrow> [] | Some b \<Rightarrow> b)"

record form =
  parts :: "part list"
  boundary :: bytes

text \<open>
  \<open>_MultiPartFormData._boundary\<close>: sixteen underscores followed by the base64 text of
  the \<open>rand_bytes = 48\<close> octets \<open>seq\<close> drawn from \<open>os.urandom\<close> (or from \<open>random\<close>,
  where \<open>os.urandom\<close> is not implemented).
\<close>

definition make_boundary :: "bytes \<Rightarrow> bytes" where
  "make_boundary seq = replicate 16 0x5F @ b64encode seq"

definition MultiPartFormData :: "bytes \<Rightarrow> form" where
  "MultiPartFormData seq = \<lparr>parts = [], boundary = make_boundary seq\<rparr>"

definition add_field :: "str \<Rightarrow> str \<Rightarrow> form \<Rightarrow> exception + form" where
  "add_field name v f =
     (case FormDataPart name (Some (Str v)) of
        Inl e \<Rightarrow> Inl e
      | Inr p \<Rightarrow> Inr (f\<lparr>parts := parts f @ [p]\<rparr>))"

definition add_file :: "str option \<Rightarrow> pybody option \<Rightarrow> form \<Rightarrow> exception + form" where
  "add_file filename b f =
     (case FormDataPart (S ''file'') None of
        Inl e \<Rightarrow> Inl e
      | Inr p0 \<Rightarrow>
        (case (case filename of None \<Rightarrow> Inr p0 | Some fn \<Rightarrow> append_header (S ''filename'') fn p0) of
           Inl e \<Rightarrow> Inl e
         | Inr p1 \<Rightarrow>
           (case (case b of None \<Rightarrow> Inr p1
                  | Some v \<Rightarrow> add_body v (add_header (B ''Content-Type: application/octet-stream'') p1)) of
              Inl e \<Rightarrow> Inl e
            | Inr p2 \<Rightarrow> Inr (f\<lparr>parts := parts f @ [p2]\<rparr>))))"

definition http_headers :: "form \<Rightarrow> exception + (str \<times> str) list" where
  "http_headers f =
     (case ascii_decode (boundary f) of
        None \<Rightarrow> Inl UnicodeDecodeError
      | Some b \<Rightarrow> Inr [(S ''Content-Type'', S ''multipart/form-data; boundary='' @ b)])"

text \<open>The loop of \<open>http_body\<close>, writing to the buffer \<open>bio\<close>.\<close>

fun write_parts :: "bytes \<Rightarrow> part list \<Rightarrow> bytes \<Rightarrow> bytes" where
  "write_parts bnd [] bio = bio"
| "write_parts bnd (p # ps) bio = write_parts bnd ps (bio @ bnd @ CRLF @ serialize p @ CRLF)"

definition http_body :: "form \<Rightarrow> bytes" where
  "http_body f =
     (let bnd = B ''--'' @ boundary f
      in write_parts bnd (parts f) [] @ bnd @ B ''--'')"

section \<open>The client \<open>PanWFapi\<close>\<close>

subsection \<open>The outside world\<close>

text \<open>
  What the module obtains from the standard library at run time is an input of the model.
  A \<open>message\<close> holds, for the parsed response headers, what
  \<open>email.message.Message.get_content_type()\<close> returns, the \<open>filename\<close> parameter of
  Content-Disposition and the \<open>name\<close> parameter of Content-Type, each unquoted and
  stripped, \<open>None\<close> where the header or the parameter is absent; a \<open>response\<close> holds what
  \<open>getcode()\<close>, \<open>reason\<close>, \<open>email.message_from_string(str(response.info()))\<close>
  (\<open>Inl\<close>: the text of the TypeError or MessageError it raised) and \<open>read()\<close> give.
\<close>

record message =
  get_content_type :: str
  disposition_filename :: "str option"
  content_type_name :: "str option"

text \<open>
  \<open>email.message.Message.get_filename()\<close>: the \<open>filename\<close> parameter of
  Content-Disposition and, where that is missing, the \<open>name\<close> parameter of Content-Type.
\<close>

definition get_filename :: "message \<Rightarrow> str option" where
  "get_filename m =
     (case disposition_filename m of Some f \<Rightarrow> Some f | None \<Rightarrow> content_type_name m)"

record response =
  getcode :: int
  reason :: str
  info :: "str + message"
  read :: bytes

datatype urlopen_result =
    CertificateError str
  | URLError str
  | Response response

record request =
  url :: str
  data :: bytes
  req_headers :: "(str \<times> str) list"

text \<open>The file and network activity of a call, in order.\<close>

datatype event = FileRead str | UrlOpen request "int option"

text \<open>
  \<open>urlopen\<close>: the opener of \<open>_urlopen\<close>, given the request and the timeout;
  \<open>open_read\<close>: \<open>open(path, 'rb')\<close> followed by \<open>read()\<close> (\<open>Inl\<close>: the text of the
  IOError); \<open>urandom\<close>: the octets drawn for the boundary; \<open>fromstring\<close>:
  \<open>etree.fromstring\<close> (\<open>Inl\<close>: the text of the ParseError); \<open>responses\<close>: the table
  \<open>http.client.responses\<close>.
\<close>

record 'e env =
  urlopen :: "request \<Rightarrow> int option \<Rightarrow> urlopen_result"
  open_read :: "str \<Rightarrow> str + bytes"
  urandom :: bytes
  fromstring :: "bytes \<Rightarrow> str + 'e"
  responses :: "int \<Rightarrow> str option"

definition wildfire_responses :: "int \<Rightarrow> str option" where
  "wildfire_responses c = (if c = 418 then Some (S ''Unsupported File Type'') else None)"

subsection \<open>The instance and its response fields\<close>

record 'e client =
  api_key :: str
  agent :: "str option"
  uri :: str
  timeout :: "int option"
  message :: "message option"
  msg :: "str option"
  http_code :: "int option"
  http_reason :: "str option"
  response_body :: "str option"
  response_type :: "str option"
  xml_element_root :: "'e option"
  attachment :: "(str \<times> bytes) option"

definition clear_response :: "'e client \<Rightarrow> 'e client" where
  "clear_response s =
     s\<lparr>msg := None, http_code := None, http_reason := None, response_body := None,
       response_type := None, xml_element_root := None, attachment := None\<rparr>"

subsection \<open>Classifying the response\<close>

definition set_stream_response :: "message \<Rightarrow> bytes \<Rightarrow> 'e client \<Rightarrow> bool \<times> 'e client" where
  "set_stream_response m message_body s =
     (case get_filename m of
        None \<Rightarrow> (False, s\<lparr>msg := Some (S ''no content-disposition response header'')\<rparr>)
      | Some filename \<Rightarrow>
        (if filename = [] then
           (False, s\<lparr>msg := Some (S ''no content-disposition response header'')\<rparr>)
         else (True, s\<lparr>attachment := Some (filename, message_body)\<rparr>)))"

text \<open>The loop of \<open>__set_xml_response\<close> that removes leading CR and LF octets.\<close>

fun strip_leading :: "bytes \<Rightarrow> bytes" where
  "strip_leading [] = []"
| "strip_leading (b # bs) = (if b = 13 \<or> b = 10 then strip_leading bs else b # bs)"

definition set_xml_response ::
  "'e env \<Rightarrow> bytes \<Rightarrow> 'e client \<Rightarrow> (exception + bool) \<times> 'e client" where
  "set_xml_response env message_body s =
     (let s1 = s\<lparr>response_type := Some (S ''xml'')\<rparr>
      in case utf8_decode message_body of
           None \<Rightarrow> (Inl UnicodeDecodeError, s1)
         | Some t \<Rightarrow>
           (if length t = 0 then (Inr True, s1)
            else
              (let s2 = s1\<lparr>response_body := Some t\<rparr>;
                   stripped = strip_leading message_body
               in if length stripped = 0 then (Inr True, s2)
                  else
                    (case fromstring env stripped of
                       Inl e \<Rightarrow>
                         (Inr False,
                          s2\<lparr>msg := Some (S ''ElementTree.fromstring ParseError: '' @ e)\<rparr>)
                     | Inr element \<Rightarrow> (Inr True, s2\<lparr>xml_element_root := Some element\<rparr>)))))"

text \<open>
  \<open>__set_json_response\<close>, \<open>__set_html_response\<close> and \<open>__set_txt_response\<close> differ in the
  tag only.
\<close>

definition set_text_response ::
  "str \<Rightarrow> bytes \<Rightarrow> 'e client \<Rightarrow> (exception + bool) \<times> 'e client" where
  "set_text_response tag message_body s =
     (let s1 = s\<lparr>response_type := Some tag\<rparr>
      in case utf8_decode message_body of
           None \<Rightarrow> (Inl UnicodeDecodeError, s1)
         | Some t \<Rightarrow>
           (if length t = 0 then (Inr True, s1)
            else (Inr True, s1\<lparr>response_body := Some t\<rparr>)))"

definition set_json_response ::
  "bytes \<Rightarrow> 'e client \<Rightarrow> (exception + bool) \<times> 'e client" where
  "set_json_response = set_text_response (S ''json'')"

definition set_html_response ::
  "bytes \<Rightarrow> 'e client \<Rightarrow> (exception + bool) \<times> 'e client" where
  "set_html_response = set_text_response (S ''html'')"

definition set_txt_response ::
  "bytes \<Rightarrow> 'e client \<Rightarrow> (exception + bool) \<times> 'e client" where
  "set_txt_response = set_text_response (S ''txt'')"

definition set_response ::
  "'e env \<Rightarrow> response \<Rightarrow> 'e client \<Rightarrow> (exception + bool) \<times> 'e client" where
  "set_response env r s =
     (let message_body = read r
      in case message s of
           None \<Rightarrow> (Inl AttributeError, s)
         | Some m \<Rightarrow>
           (let content_type = get_content_type m
            in if content_type = [] then
                 (Inr False,
                  if msg s = None then s\<lparr>msg := Some (S ''no content-type response header'')\<rparr>
                  else s)
               else if content_type = S ''application/octet-stream'' then
                 (case set_stream_response m message_body s of (ok, s') \<Rightarrow> (Inr ok, s'))
               else if content_type = S ''application/xml'' \<or> content_type = S ''text/xml'' then
                 set_xml_response env message_body s
               else if content_type = S ''application/json'' then
                 set_json_response message_body s
               else if content_type = S ''text/html'' then
                 set_html_response message_body s
               else if content_type = S ''text/plain'' then
                 set_txt_response message_body s
               else
                 (Inr False,
                  s\<lparr>msg := Some (S ''no handler for content-type: '' @ content_type)\<rparr>)))"

subsection \<open>The exchange\<close>

text \<open>
  \<open>__api_request\<close> returns the response, or \<open>False\<close> (here \<open>None\<close>) with \<open>_msg\<close> set.
\<close>

definition api_request ::
  "'e env \<Rightarrow> str \<Rightarrow> pybody \<Rightarrow> (str \<times> str) list \<Rightarrow> 'e client
     \<Rightarrow> (exception + response option) \<times> 'e client \<times> event list" where
  "api_request env request_uri b hdrs s =
     (case (case b of Str t \<Rightarrow> utf8_encode t | Bytes bs \<Rightarrow> Some bs) of
        None \<Rightarrow> (Inl UnicodeEncodeError, s, [])
      | Some bs \<Rightarrow>
        (let rq = \<lparr>url = uri s @ request_uri, data = bs, req_headers = hdrs\<rparr>;
             ev = [UrlOpen rq (timeout s)]
         in case urlopen env rq (timeout s) of
              CertificateError e \<Rightarrow>
                (Inr None, s\<lparr>msg := Some (S ''ssl.CertificateError: '' @ e)\<rparr>, ev)
            | URLError e \<Rightarrow> (Inr None, s\<lparr>msg := Some e\<rparr>, ev)
            | Response r \<Rightarrow>
              (let code = getcode r;
                   rsn = (if reason r = [] then
                            (case wildfire_responses code of
                               Some w \<Rightarrow> w
                             | None \<Rightarrow>
                               (case responses env code of Some w \<Rightarrow> w | None \<Rightarrow> reason r))
                          else reason r);
                   s1 = s\<lparr>http_code := Some code, http_reason := Some rsn\<rparr>
               in case info r of
                    Inl e \<Rightarrow>
                      (Inl (PanWFapiError (Some (S ''email.message_from_string() '' @ e))), s1, ev)
                  | Inr m \<Rightarrow>
                    (let s2 = s1\<lparr>message := Some m\<rparr>
                     in if \<not> (200 \<le> code \<and> code < 300) then
                          (case set_response env r
                                  (s2\<lparr>msg := Some (S ''HTTP Error '' @ str_of_int code
                                                     @ S '': '' @ rsn)\<rparr>) of
                             (Inl e, s3) \<Rightarrow> (Inl e, s3, ev)
                           | (Inr _, s3) \<Rightarrow> (Inr None, s3, ev))
                        else (Inr (Some r), s2, ev)))))"

definition read_file :: "'e env \<Rightarrow> str \<Rightarrow> 'e client \<Rightarrow> bytes option \<times> 'e client" where
  "read_file env path s =
     (case open_read env path of
        Inl e \<Rightarrow> (None, s\<lparr>msg := Some (S ''open: '' @ path @ S '': '' @ e)\<rparr>)
      | Inr buf \<Rightarrow> (Some buf, s))"

subsection \<open>The public operations\<close>

text \<open>
  An operation returns the exception it raised, if any, the instance as the call left it,
  and the file and network activity of the call.
\<close>

type_synonym 'e outcome = "exception option \<times> 'e client \<times> event list"

text \<open>
  The tail that every operation ends with:
  \<^verbatim>\<open>
  response = self.__api_request(request_uri=request_uri, body=body, headers=headers)
  if not response:
      raise PanWFapiError(self._msg)
  if not self.__set_response(response):
      raise PanWFapiError(self._msg)
  \<close>
\<close>

definition request_and_set ::
  "'e env \<Rightarrow> str \<Rightarrow> pybody \<Rightarrow> (str \<times> str) list \<Rightarrow> 'e client \<Rightarrow> 'e outcome" where
  "request_and_set env request_uri b hdrs s =
     (case api_request env request_uri b hdrs s of
        (Inl e, s1, ev) \<Rightarrow> (Some e, s1, ev)
      | (Inr None, s1, ev) \<Rightarrow> (Some (PanWFapiError (msg s1)), s1, ev)
      | (Inr (Some r), s1, ev) \<Rightarrow>
        (case set_response env r s1 of
           (Inl e, s2) \<Rightarrow> (Some e, s2, ev)
         | (Inr False, s2) \<Rightarrow> (Some (PanWFapiError (msg s2)), s2, ev)
         | (Inr True, s2) \<Rightarrow> (None, s2, ev)))"

text \<open>\<open>body=urlencode(query)\<close>, with the default \<open>headers={}\<close>.\<close>

definition send_query ::
  "'e env \<Rightarrow> str \<Rightarrow> (str \<times> str) list \<Rightarrow> 'e client \<Rightarrow> 'e outcome" where
  "send_query env request_uri query s =
     (case urlencode query of
        None \<Rightarrow> (Some UnicodeEncodeError, s, [])
      | Some q \<Rightarrow> request_and_set env request_uri (Str q) [] s)"

text \<open>\<open>headers = form.http_headers()\<close>, \<open>body = form.http_body()\<close>.\<close>

definition send_form :: "'e env \<Rightarrow> str \<Rightarrow> form \<Rightarrow> 'e client \<Rightarrow> 'e outcome" where
  "send_form env request_uri f s =
     (case http_headers f of
        Inl e \<Rightarrow> (Some e, s, [])
      | Inr hdrs \<Rightarrow> request_and_set env request_uri (Bytes (http_body f)) hdrs s)"

text \<open>\<open>if v is not None: query[k] = v\<close> and \<open>if v is not None: form.add_field(k, v)\<close>.\<close>

definition opt_item :: "str \<Rightarrow> str option \<Rightarrow> (str \<times> str) list \<Rightarrow> (str \<times> str) list" where
  "opt_item k v q = (case v of None \<Rightarrow> q | Some x \<Rightarrow> setitem q k x)"

definition opt_field :: "str \<Rightarrow> str option \<Rightarrow> form \<Rightarrow> exception + form" where
  "opt_field k v f = (case v of None \<Rightarrow> Inr f | Some x \<Rightarrow> add_field k x f)"

definition and_then :: "exception + 'a \<Rightarrow> ('a \<Rightarrow> exception + 'b) \<Rightarrow> exception + 'b" where
  "and_then r k = (case r of Inl e \<Rightarrow> Inl e | Inr x \<Rightarrow> k x)"

text \<open>The first lines of every query and of every form: the key and the agent.\<close>

definition base_query :: "'e client \<Rightarrow> (str \<times> str) list" where
  "base_query s = opt_item (S ''agent'') (agent s) (setitem [] (S ''apikey'') (api_key s))"

definition base_form :: "'e env \<Rightarrow> 'e client \<Rightarrow> exception + form" where
  "base_form env s =
     and_then (add_field (S ''apikey'') (api_key s) (MultiPartFormData (urandom env)))
       (opt_field (S ''agent'') (agent s))"

definition report ::
  "'e env \<Rightarrow> str option \<Rightarrow> str option \<Rightarrow> str option \<Rightarrow> 'e client \<Rightarrow> 'e outcome" where
  "report env hash format url' s =
     (let s0 = clear_response s;
          query = opt_item (S ''url'') url'
                    (opt_item (S ''format'') format (opt_item (S ''hash'') hash (base_query s0)))
      in send_query env (S ''/publicapi/get/report'') query s0)"

definition verdict :: "'e env \<Rightarrow> str option \<Rightarrow> str option \<Rightarrow> 'e client \<Rightarrow> 'e outcome" where
  "verdict env hash url' s =
     (let s0 = clear_response s;
          query = opt_item (S ''url'') url' (opt_item (S ''hash'') hash (base_query s0))
      in send_query env (S ''/publicapi/get/verdict'') query s0)"

definition verdicts :: "'e env \<Rightarrow> str list option \<Rightarrow> 'e client \<Rightarrow> 'e outcome" where
  "verdicts env hashes s =
     (let s0 = clear_response s
      in case and_then (base_form env s0)
                (opt_field (S ''file'') (map_option (join (S ''\<newline>'')) hashes)) of
           Inl e \<Rightarrow> (Some e, s0, [])
         | Inr f \<Rightarrow> send_form env (S ''/publicapi/get/verdicts'') f s0)"

definition verdicts_changed :: "'e env \<Rightarrow> str option \<Rightarrow> 'e client \<Rightarrow> 'e outcome" where
  "verdicts_changed env date s =
     (let s0 = clear_response s;
          query = opt_item (S ''date'') date (base_query s0)
      in send_query env (S ''/publicapi/get/verdicts/changed'') query s0)"

definition sample :: "'e env \<Rightarrow> str option \<Rightarrow> 'e client \<Rightarrow> 'e outcome" where
  "sample env hash s =
     (let s0 = clear_response s;
          query = opt_item (S ''hash'') hash (base_query s0)
      in send_query env (S ''/publicapi/get/sample'') query s0)"

definition pcap :: "'e env \<Rightarrow> str option \<Rightarrow> str option \<Rightarrow> 'e client \<Rightarrow> 'e outcome" where
  "pcap env hash platform s =
     (let s0 = clear_response s;
          query = opt_item (S ''platform'') platform (opt_item (S ''hash'') hash (base_query s0))
      in send_query env (S ''/publicapi/get/pcap'') query s0)"

definition testfile :: "'e env \<Rightarrow> str option \<Rightarrow> 'e client \<Rightarrow> 'e outcome" where
  "testfile env file_type s =
     (let s0 = clear_response s;
          request_uri = S ''/publicapi/test/''
                          @ (case file_type of None \<Rightarrow> S ''pe'' | Some t \<Rightarrow> t)
      in send_query env request_uri [] s0)"

definition change_request ::
  "'e env \<Rightarrow> str option \<Rightarrow> str option \<Rightarrow> str option \<Rightarrow> str option \<Rightarrow> 'e client
     \<Rightarrow> 'e outcome" where
  "change_request env hash verdict' email comment s =
     (let s0 = clear_response s
      in case and_then (and_then (and_then (and_then (base_form env s0)
                  (opt_field (S ''hash'') hash))
                  (opt_field (S ''verdict'') verdict'))
                  (opt_field (S ''email'') email))
                  (opt_field (S ''comment'') comment) of
           Inl e \<Rightarrow> (Some e, s0, [])
         | Inr f \<Rightarrow> send_form env (S ''/publicapi/submit/change-request'') f s0)"

subsection \<open>\<open>submit\<close>\<close>

text \<open>\<open>bool(x)\<close> for an optional \<open>str\<close> or list: neither \<open>None\<close> nor empty.\<close>

definition truthy :: "'a list option \<Rightarrow> bool" where
  "truthy x = (case x of None \<Rightarrow> False | Some v \<Rightarrow> v \<noteq> [])"

definition precondition_msg :: str where
  "precondition_msg = S ''must submit one of file, url or links''"

text \<open>
  The chain that chooses \<open>request_uri\<close>. \<open>len(None)\<close> raises TypeError; were no
  branch taken, the later use of \<open>request_uri\<close> would raise UnboundLocalError.
\<close>

definition submit_uri ::
  "str option \<Rightarrow> str option \<Rightarrow> str list option \<Rightarrow> exception + str" where
  "submit_uri file url' links =
     (if file \<noteq> None then Inr (S ''/publicapi/submit/file'')
      else if url' \<noteq> None then Inr (S ''/publicapi/submit/url'')
      else (case links of
              None \<Rightarrow> Inl TypeError
            | Some l \<Rightarrow>
              (if length l < 2 then Inr (S ''/publicapi/submit/link'')
               else if length l > 1 then Inr (S ''/publicapi/submit/links'')
               else Inl UnboundLocalError)))"

text \<open>\<open>if file is not None:\<close> read it and add the file part.\<close>

definition submit_file ::
  "'e env \<Rightarrow> str option \<Rightarrow> form \<Rightarrow> 'e client
     \<Rightarrow> (exception + form) \<times> 'e client \<times> event list" where
  "submit_file env file f s =
     (case file of
        None \<Rightarrow> (Inr f, s, [])
      | Some path \<Rightarrow>
        (case read_file env path s of
           (None, s1) \<Rightarrow> (Inl (PanWFapiError (msg s1)), s1, [FileRead path])
         | (Some buf, s1) \<Rightarrow>
             (add_file (Some (basename path)) (Some (Bytes buf)) f, s1, [FileRead path])))"

definition magic :: str where
  "magic = S ''panlnk''"

text \<open>\<open>if links is not None:\<close> one link is a field, several are a file part.\<close>

definition submit_links :: "str list option \<Rightarrow> form \<Rightarrow> exception + form" where
  "submit_links links f =
     (case links of
        None \<Rightarrow> Inr f
      | Some l \<Rightarrow>
        (if length l = 1 then add_field (S ''link'') (hd l) f
         else if length l > 1 then
           (if hd l = magic then
              add_file (Some (S ''pan'')) (Some (Str (join (S ''\<newline>'') l))) f
            else
              add_file (Some (S ''pan''))
                (Some (Str (magic @ S ''\<newline>'' @ join (S ''\<newline>'') l))) f)
         else Inr f))"

definition submit ::
  "'e env \<Rightarrow> str option \<Rightarrow> str option \<Rightarrow> str list option \<Rightarrow> 'e client \<Rightarrow> 'e outcome" where
  "submit env file url' links s =
     (let s0 = clear_response s
      in if (of_bool (truthy file) + of_bool (truthy url') + of_bool (truthy links) :: nat) \<noteq> 1
         then (Some (PanWFapiError (Some precondition_msg)), s0, [])
         else
           (case submit_uri file url' links of
              Inl e \<Rightarrow> (Some e, s0, [])
            | Inr request_uri \<Rightarrow>
              (case base_form env s0 of
                 Inl e \<Rightarrow> (Some e, s0, [])
               | Inr f0 \<Rightarrow>
                 (case submit_file env file f0 s0 of
                    (Inl e, s1, ev) \<Rightarrow> (Some e, s1, ev)
                  | (Inr f1, s1, ev) \<Rightarrow>
                    (case and_then (opt_field (S ''url'') url' f1) (submit_links links) of
                       Inl e \<Rightarrow> (Some e, s1, ev)
                     | Inr f2 \<Rightarrow>
                       (case send_form env request_uri f2 s1 of
                          (r, s2, ev') \<Rightarrow> (r, s2, ev @ ev')))))))"

section \<open>Reading a multipart body back\<close>

text \<open>
  \<open>bytes.split(sep)\<close> for a non-empty separator, by which the property "splitting the
  body on \<open>--<boundary>\<close>" is stated: \<open>split_from\<close> scans from the left with the piece
  read so far. \<open>starts_with pre xs\<close> is \<open>xs.startswith(pre)\<close> and
  \<open>contains sep xs\<close> is \<open>sep in xs\<close>.
\<close>

fun starts_with :: "'a list \<Rightarrow> 'a list \<Rightarrow> bool" where
  "starts_with [] xs = True"
| "starts_with (a # as) [] = False"
| "starts_with (a # as) (x # xs) = (if a = x then starts_with as xs else False)"

function split_from :: "'a list \<Rightarrow> 'a list \<Rightarrow> 'a list \<Rightarrow> 'a list list" where
  "split_from sep piece [] = [piece]"
| "split_from sep piece (x # xs) =
     (if starts_with sep (x # xs)
      then piece # split_from sep [] (drop (length sep - 1) xs)
      else split_from sep (piece @ [x]) xs)"
  by pat_completeness auto
termination
  by (relation "measure (\<lambda>(sep, piece, xs). length xs)") auto

definition split_on :: "'a list \<Rightarrow> 'a list \<Rightarrow> 'a list list" where
  "split_on sep xs = split_from sep [] xs"

fun contains :: "'a list \<Rightarrow> 'a list \<Rightarrow> bool" where
  "contains sep [] = (sep = [])"
| "contains sep (x # xs) = (if starts_with sep (x # xs) then True else contains sep xs)"

text \<open>What lies between two delimiters of the body: a part between two line ends.\<close>

definition framed :: "part \<Rightarrow> bytes" where
  "framed p = CRLF @ serialize p @ CRLF"

section \<open>Sample inputs\<close>

text \<open>A draw of forty-eight zero octets, whose base64 text is sixty-four letters A.\<close>

definition seq0 :: bytes where
  "seq0 = replicate 48 0"

text \<open>The form of one field \<open>apikey\<close> with the value \<open>ABC123\<close>.\<close>

definition key_form :: form where
  "key_form =
     \<lparr>parts = [\<lparr>headers = [B ''Content-Disposition: form-data; name='' @ [34] @ B ''apikey'' @ [34]],
                 body = Some (B ''ABC123'')\<rparr>],
      boundary = make_boundary seq0\<rparr>"

text \<open>A form whose only field has the delimiter of the form as its value.\<close>

definition clash_form :: form where
  "clash_form =
     \<lparr>parts = [\<lparr>headers = [B ''Content-Disposition: form-data; name='' @ [34] @ B ''x'' @ [34]],
                 body = Some (B ''--'' @ make_boundary seq0)\<rparr>],
      boundary = make_boundary seq0\<rparr>"

text \<open>What the claims call a Content-Disposition line and a Content-Type header.\<close>

definition content_disposition_line :: "bytes \<Rightarrow> bool" where
  "content_disposition_line h = starts_with (B ''Content-Disposition:'') h"

definition content_type_line :: "bytes \<Rightarrow> bool" where
  "content_type_line h = starts_with (B ''Content-Type:'') h"

text \<open>The form that \<open>add_file(filename='pan')\<close>, without a body, leaves.\<close>

definition bare_file_form :: form where
  "bare_file_form =
     \<lparr>parts = [\<lparr>headers = [B ''Content-Disposition: form-data; name='' @ [34] @ B ''file'' @ [34]
                              @ B ''; filename='' @ [34] @ B ''pan'' @ [34]],
                 body = None\<rparr>],
      boundary = make_boundary seq0\<rparr>"

text \<open>
  A stand-in for \<open>etree.fromstring\<close> that agrees with it on the documents used below:
  \<open><a/>\<close> parses to an element, here its tag, and \<open><a\<close> is a syntax error.
\<close>

definition sample_fromstring :: "bytes \<Rightarrow> str + str" where
  "sample_fromstring bs =
     (if bs = B ''<a/>'' then Inr (S ''a'')
      else Inl (S ''unclosed token: line 1, column 0''))"

text \<open>Three entries of \<open>http.client.responses\<close>.\<close>

definition sample_responses :: "int \<Rightarrow> str option" where
  "sample_responses c =
     (if c = 200 then Some (S ''OK'')
      else if c = 404 then Some (S ''Not Found'')
      else if c = 418 then Some (S ''I'' @ [39] @ S ''m a Teapot'')
      else None)"

text \<open>
  A world in which every request is answered by \<open>res\<close> and no file can be opened.
\<close>

definition env_of :: "urlopen_result \<Rightarrow> str env" where
  "env_of res =
     \<lparr>urlopen = (\<lambda>rq t. res),
      open_read = (\<lambda>path. Inl (S ''[Errno 2] No such file or directory'')),
      urandom = seq0,
      fromstring = sample_fromstring,
      responses = sample_responses\<rparr>"

text \<open>An instance as \<open>__init__\<close> leaves it, and one that holds an earlier success.\<close>

definition client0 :: "str client" where
  "client0 =
     \<lparr>api_key = S ''ABC123'', agent = None, uri = S ''https://wildfire.paloaltonetworks.com'',
      timeout = None, message = None, msg = None, http_code = None, http_reason = None,
      response_body = None, response_type = None, xml_element_root = None,
      attachment = None\<rparr>"

definition stale_client :: "str client" where
  "stale_client =
     client0\<lparr>http_code := Some 200, http_reason := Some (S ''OK''),
             response_body := Some (S ''<a/>''), response_type := Some (S ''xml''),
             xml_element_root := Some (S ''a'')\<rparr>"

text \<open>
  Headers with a content type and the \<open>filename\<close> of Content-Disposition, and responses:
  a status, a reason phrase, a content type, that file name, a body.
\<close>

definition message_of :: "str \<Rightarrow> str option \<Rightarrow> message" where
  "message_of ct fname =
     \<lparr>get_content_type = ct, disposition_filename = fname, content_type_name = None\<rparr>"

definition response_of :: "int \<Rightarrow> str \<Rightarrow> str \<Rightarrow> str option \<Rightarrow> bytes \<Rightarrow> response" where
  "response_of c rsn ct fname bs =
     \<lparr>getcode = c, reason = rsn,
      info = Inr (message_of ct fname), read = bs\<rparr>"

text \<open>An XML answer \<open><a/>\<close> to \<open>report(hash='abc')\<close>, and the instance it leaves.\<close>

definition xml_answer :: response where
  "xml_answer = response_of 200 (S ''OK'') (S ''text/xml'') None (B ''<a/>'')"

definition xml_exchange :: "str outcome" where
  "xml_exchange = report (env_of (Response xml_answer)) (Some (S ''abc'')) None None client0"

definition xml_client :: "str client" where
  "xml_client =
     client0\<lparr>message := Some (message_of (S ''text/xml'') None),
             http_code := Some 200, http_reason := Some (S ''OK''),
             response_body := Some (S ''<a/>''), response_type := Some (S ''xml''),
             xml_element_root := Some (S ''a'')\<rparr>"

text \<open>The instance between \<open>__api_request\<close> and \<open>__set_response\<close> in that exchange.\<close>

definition xml_pending :: "str client" where
  "xml_pending =
     client0\<lparr>message := Some (message_of (S ''text/xml'') None),
             http_code := Some 200, http_reason := Some (S ''OK'')\<rparr>"




text \<open>What a call of \<open>submit\<close> returns when the precondition rejects it.\<close>

definition rejected :: "'e client \<Rightarrow> 'e outcome" where
  "rejected s = (Some (PanWFapiError (Some precondition_msg)), clear_response s, [])"

text \<open>How many of the three arguments of \<open>submit\<close> are true: the \<open>sum\<close> of the source.\<close>

definition given :: "str option \<Rightarrow> str option \<Rightarrow> str list option \<Rightarrow> nat" where
  "given file url' links = of_bool (truthy file) + of_bool (truthy url') + of_bool (truthy links)"

text \<open>The header that \<open>add_file(filename='pan', ...)\<close> writes first.\<close>

definition pan_disposition :: bytes where
  "pan_disposition =
     B ''Content-Disposition: form-data; name='' @ [34] @ B ''file'' @ [34]
       @ B ''; filename='' @ [34] @ B ''pan'' @ [34]"

text \<open>The part that \<open>submit\<close> adds for a list of links, given the octets of its body.\<close>

definition links_part :: "bytes \<Rightarrow> part" where
  "links_part bs =
     \<lparr>headers = [pan_disposition, B ''Content-Type: application/octet-stream''],
      body = Some bs\<rparr>"

text \<open>
  Headers that declare a binary answer with \<open>Content-Type: application/octet-stream;
  name=x.pcap\<close> and no Content-Disposition, and the answer that carries them.
\<close>

definition named_message :: message where
  "named_message =
     \<lparr>get_content_type = S ''application/octet-stream'', disposition_filename = None,
      content_type_name = Some (S ''x.pcap'')\<rparr>"

definition named_answer :: response where
  "named_answer = \<lparr>getcode = 200, reason = S ''OK'', info = Inr named_message, read = B ''PCAP''\<rparr>"

section \<open>The multipart body\<close>

lemma starts_with_take: "starts_with pre xs \<longleftrightarrow> take (length pre) xs = pre"
  by (induction pre xs rule: starts_with.induct) auto

lemma write_parts_concat:
  "write_parts bnd ps bio = bio @ concat (map (\<lambda>p. bnd @ CRLF @ serialize p @ CRLF) ps)"
  by (induction ps arbitrary: bio) simp_all

lemma http_body_concat:
  "http_body f =
     concat (map (\<lambda>p. B ''--'' @ boundary f @ CRLF @ serialize p @ CRLF) (parts f))
       @ B ''--'' @ boundary f @ B ''--''"
  by (simp add: http_body_def Let_def write_parts_concat)

lemma contains_short: "length xs < length sep \<Longrightarrow> \<not> contains sep xs"
  by (induction xs) (auto simp: starts_with_take)

lemma split_from_short: "length xs < length sep \<Longrightarrow> split_from sep acc xs = [acc @ xs]"
  by (induction xs arbitrary: acc) (auto simp: starts_with_take)

text \<open>
  Where the separator does not begin inside \<open>piece\<close>, the scan runs through \<open>piece\<close> and
  cuts at the separator that follows it.
\<close>

lemma split_from_skip:
  assumes "sep \<noteq> []" and "\<not> contains sep (piece @ butlast sep)"
  shows "split_from sep acc (piece @ sep @ rest) = (acc @ piece) # split_from sep [] rest"
  using assms(2)
proof (induction piece arbitrary: acc)
  case Nil
  from assms(1) obtain x xs where sep: "sep = x # xs" by (cases sep) auto
  have "split_from sep acc (sep @ rest) = acc # split_from sep [] rest"
    unfolding sep by (simp add: starts_with_take)
  then show ?case by simp
next
  case (Cons a piece)
  have len: "length sep \<le> length ((a # piece) @ butlast sep)" by simp
  from Cons.prems have ne: "take (length sep) ((a # piece) @ butlast sep) \<noteq> sep"
    and rest: "\<not> contains sep (piece @ butlast sep)"
    by (simp_all add: starts_with_take split: if_splits)
  have "(a # piece) @ sep @ rest = ((a # piece) @ butlast sep) @ (last sep # rest)"
    using assms(1) by simp
  then have "take (length sep) ((a # piece) @ sep @ rest)
             = take (length sep) ((a # piece) @ butlast sep)"
    using len by (metis take_append diff_is_0_eq take_0 append_Nil2)
  with ne have "\<not> starts_with sep (a # piece @ sep @ rest)"
    by (simp add: starts_with_take)
  then have "split_from sep acc ((a # piece) @ sep @ rest)
             = split_from sep (acc @ [a]) (piece @ sep @ rest)"
    by simp
  also have "\<dots> = ((acc @ [a]) @ piece) # split_from sep [] rest"
    using Cons.IH [OF rest] .
  finally show ?case by simp
qed

lemma split_from_parts:
  assumes "sep \<noteq> []" and "\<forall>p \<in> set ps. \<not> contains sep (g p @ butlast sep)"
    and "length fin < length sep"
  shows "split_from sep [] (concat (map (\<lambda>p. g p @ sep) ps) @ fin) = map g ps @ [fin]"
  using assms(2)
proof (induction ps)
  case Nil
  show ?case using split_from_short [OF assms(3), of "[]"] by simp
next
  case (Cons p ps)
  have "split_from sep [] (g p @ sep @ (concat (map (\<lambda>p. g p @ sep) ps) @ fin))
        = ([] @ g p) # split_from sep [] (concat (map (\<lambda>p. g p @ sep) ps) @ fin)"
    using Cons.prems by (intro split_from_skip [OF assms(1)]) simp
  with Cons show ?case by simp
qed

lemma concat_shift:
  "concat (map (\<lambda>p. sep @ g p) ps) @ sep = sep @ concat (map (\<lambda>p. g p @ sep) ps)"
  by (induction ps) simp_all

lemma split_body:
  assumes "boundary f \<noteq> []"
    and "\<forall>p \<in> set (parts f).
           \<not> contains (B ''--'' @ boundary f) (framed p @ butlast (B ''--'' @ boundary f))"
  shows "split_on (B ''--'' @ boundary f) (http_body f) = [] # map framed (parts f) @ [B ''--'']"
proof -
  let ?sep = "B ''--'' @ boundary f"
  let ?tail = "concat (map (\<lambda>p. framed p @ ?sep) (parts f)) @ B ''--''"
  have ne: "?sep \<noteq> []" by (simp add: B_def)
  have fin: "length (B ''--'') < length ?sep" using assms(1) by (simp add: B_def)
  have "http_body f = concat (map (\<lambda>p. ?sep @ framed p) (parts f)) @ ?sep @ B ''--''"
    by (simp add: http_body_concat framed_def)
  also have "\<dots> = [] @ ?sep @ ?tail"
    using concat_shift [of ?sep framed "parts f"] by simp
  finally have body: "http_body f = [] @ ?sep @ ?tail" .
  have "\<not> contains ?sep ([] @ butlast ?sep)"
    using ne contains_short [of "butlast ?sep" ?sep] by (simp del: butlast_append)
  from split_from_skip [OF ne this, of "[]" ?tail]
  have "split_from ?sep [] (http_body f) = [] # split_from ?sep [] ?tail"
    unfolding body by simp
  also have "split_from ?sep [] ?tail = map framed (parts f) @ [B ''--'']"
    using split_from_parts [OF ne assms(2) fin] .
  finally show ?thesis by (simp add: split_on_def)
qed

lemma make_boundary_seq0:
  "make_boundary seq0 =
     B ''________________AAAAAAAAAAAAAAAAAAAAAAAAAAAAAAAAAAAAAAAAAAAAAAAAAAAAAAAAAAAAAAAA''"
  by code_simp

text \<open>
  C2, as the code has it. The body is, for each part in order, the delimiter
  \<open>--boundary\<close>, CRLF, the serialized part and CRLF, and then the closing \<open>--boundary--\<close>
  with nothing after it. Splitting the body on the delimiter gives back the empty piece
  before the first delimiter, each serialized part between two CRLF in the order added, and
  the closing \<open>--\<close>, provided the boundary is not empty and the delimiter does not begin
  inside any part's piece: the code never scans the parts for the boundary.
\<close>

theorem http_body_layout_and_split:
  "http_body f =
     concat (map (\<lambda>p. B ''--'' @ boundary f @ CRLF @ serialize p @ CRLF) (parts f))
       @ B ''--'' @ boundary f @ B ''--''
   \<and> (boundary f \<noteq> []
        \<and> list_all (\<lambda>p. \<not> contains (B ''--'' @ boundary f)
                              (framed p @ butlast (B ''--'' @ boundary f))) (parts f)
      \<longrightarrow> split_on (B ''--'' @ boundary f) (http_body f)
            = [] # map framed (parts f) @ [B ''--''])"
  using http_body_concat [of f] split_body [of f] by (simp add: list_all_iff)

theorem http_body_layout_and_split_witness:
  "boundary key_form \<noteq> []
   \<and> list_all (\<lambda>p. \<not> contains (B ''--'' @ boundary key_form)
                         (framed p @ butlast (B ''--'' @ boundary key_form))) (parts key_form)
   \<and> split_on (B ''--'' @ boundary key_form) (http_body key_form)
       = [] # map framed (parts key_form) @ [B ''--'']"
proof -
  have b: "boundary key_form \<noteq> []"
    by (simp add: key_form_def make_boundary_seq0 B_def)
  have c: "list_all (\<lambda>p. \<not> contains (B ''--'' @ boundary key_form)
                            (framed p @ butlast (B ''--'' @ boundary key_form))) (parts key_form)"
    by (simp add: key_form_def make_boundary_seq0 framed_def serialize_def CRLF_def B_def)
  show ?thesis using b c http_body_layout_and_split [of key_form] by blast
qed

text \<open>
  C2 as stated fails where a part holds the delimiter: the field of \<open>clash_form\<close> has the
  value \<open>--boundary\<close>, and the body splits into other pieces than the part added.
\<close>

theorem http_body_split_counterexample:
  "split_on (B ''--'' @ boundary clash_form) (http_body clash_form)
   \<noteq> [] # map framed (parts clash_form) @ [B ''--'']"
proof -
  have "length (split_on (B ''--'' @ boundary clash_form) (http_body clash_form)) = 4"
    by (simp add: clash_form_def make_boundary_seq0 http_body_def split_on_def serialize_def
        CRLF_def B_def)
  moreover have "length ([] # map framed (parts clash_form) @ [B ''--'']) = 3"
    by (simp add: clash_form_def)
  ultimately show ?thesis by auto
qed

section \<open>The headers of a part\<close>

lemma FormDataPart_headers:
  assumes "FormDataPart name b = Inr p"
  shows "\<exists>e. headers p = [B ''Content-Disposition: form-data'' @ B ''; '' @ e]"
  using assms
  by (auto simp: FormDataPart_def append_header_def add_header_def add_body_def
      split: sum.splits option.splits if_splits pybody.splits)

lemma append_header_one:
  assumes "append_header k v p = Inr p'" and "headers p = [h]"
  shows "\<exists>e. headers p' = [h @ B ''; '' @ e]"
  using assms by (auto simp: append_header_def split: sum.splits if_splits)

lemma add_body_headers: "add_body v p = Inr p' \<Longrightarrow> headers p' = headers p"
  by (auto simp: add_body_def split: pybody.splits option.splits)

lemma disposition_prefix:
  "content_disposition_line (B ''Content-Disposition: form-data'' @ r)"
  by (simp add: content_disposition_line_def B_def)

lemma disposition_not_type:
  "\<not> content_type_line (B ''Content-Disposition: form-data'' @ r)"
  by (simp add: content_type_line_def B_def)

lemma add_field_part:
  assumes "add_field name v f = Inr f'"
  shows "\<exists>h. content_disposition_line h \<and> \<not> content_type_line h
             \<and> butlast (parts f') = parts f \<and> parts f' \<noteq> []
             \<and> headers (last (parts f')) = [h]"
proof -
  from assms obtain p where p: "FormDataPart name (Some (Str v)) = Inr p"
    and f': "f' = f\<lparr>parts := parts f @ [p]\<rparr>"
    by (auto simp: add_field_def split: sum.splits)
  from FormDataPart_headers [OF p] obtain e
    where "headers p = [B ''Content-Disposition: form-data'' @ B ''; '' @ e]" ..
  with f' show ?thesis
    using disposition_prefix disposition_not_type by auto
qed

lemma add_file_part:
  assumes "add_file fname b f = Inr f'"
  shows "\<exists>h. content_disposition_line h \<and> \<not> content_type_line h
             \<and> butlast (parts f') = parts f \<and> parts f' \<noteq> []
             \<and> headers (last (parts f'))
                 = (if b = None then [h] else [h, B ''Content-Type: application/octet-stream''])"
proof -
  from assms obtain p0 p1 p2 where p0: "FormDataPart (S ''file'') None = Inr p0"
    and p1: "(case fname of None \<Rightarrow> Inr p0 | Some fn \<Rightarrow> append_header (S ''filename'') fn p0) = Inr p1"
    and p2: "(case b of None \<Rightarrow> Inr p1
              | Some v \<Rightarrow> add_body v (add_header (B ''Content-Type: application/octet-stream'') p1))
             = Inr p2"
    and f': "f' = f\<lparr>parts := parts f @ [p2]\<rparr>"
    by (auto simp: add_file_def split: sum.splits)
  from FormDataPart_headers [OF p0] obtain e
    where h0: "headers p0 = [B ''Content-Disposition: form-data'' @ B ''; '' @ e]" ..
  have "\<exists>r. headers p1 = [B ''Content-Disposition: form-data'' @ r]"
  proof (cases fname)
    case None
    with p1 h0 show ?thesis by auto
  next
    case (Some fn)
    with p1 have "append_header (S ''filename'') fn p0 = Inr p1" by simp
    from append_header_one [OF this h0] show ?thesis by auto
  qed
  then obtain r where h1: "headers p1 = [B ''Content-Disposition: form-data'' @ r]" ..
  have "headers p2 = (if b = None then headers p1
                      else headers p1 @ [B ''Content-Type: application/octet-stream''])"
    using p2 by (auto simp: add_header_def split: option.splits dest!: add_body_headers)
  with h1 f' show ?thesis
    using disposition_prefix [of r] disposition_not_type [of r] by auto
qed

text \<open>
  C5, as the code has it. A part made by \<open>add_field\<close> has one header, a
  Content-Disposition line, and so no Content-Type header. A part made by \<open>add_file\<close> has
  a Content-Disposition line first; it carries \<open>Content-Type: application/octet-stream\<close>
  as its second and last header when a body is given, and no Content-Type header when no
  body is given.
\<close>

theorem part_headers:
  "(add_field name v f = Inr f' \<longrightarrow>
      butlast (parts f') = parts f \<and> parts f' \<noteq> []
      \<and> length (headers (last (parts f'))) = 1
      \<and> content_disposition_line (hd (headers (last (parts f'))))
      \<and> \<not> list_ex content_type_line (headers (last (parts f'))))
   \<and> (add_file fname b f = Inr f' \<longrightarrow>
      butlast (parts f') = parts f \<and> parts f' \<noteq> []
      \<and> content_disposition_line (hd (headers (last (parts f'))))
      \<and> (if b = None then \<not> list_ex content_type_line (headers (last (parts f')))
          else tl (headers (last (parts f'))) = [B ''Content-Type: application/octet-stream'']))"
proof (intro conjI impI)
  assume "add_field name v f = Inr f'"
  from add_field_part [OF this] obtain h where
    "content_disposition_line h" "\<not> content_type_line h" "butlast (parts f') = parts f"
    "parts f' \<noteq> []" "headers (last (parts f')) = [h]" by blast
  then show "butlast (parts f') = parts f" "parts f' \<noteq> []"
    "length (headers (last (parts f'))) = 1"
    "content_disposition_line (hd (headers (last (parts f'))))"
    "\<not> list_ex content_type_line (headers (last (parts f')))" by simp_all
next
  assume "add_file fname b f = Inr f'"
  from add_file_part [OF this] obtain h where
    "content_disposition_line h" "\<not> content_type_line h" "butlast (parts f') = parts f"
    "parts f' \<noteq> []"
    "headers (last (parts f'))
       = (if b = None then [h] else [h, B ''Content-Type: application/octet-stream''])" by blast
  then show "butlast (parts f') = parts f" "parts f' \<noteq> []"
    "content_disposition_line (hd (headers (last (parts f'))))"
    "if b = None then \<not> list_ex content_type_line (headers (last (parts f')))
     else tl (headers (last (parts f'))) = [B ''Content-Type: application/octet-stream'']"
    by (simp_all split: if_splits)
qed

lemma add_field_key_form:
  "add_field (S ''apikey'') (S ''ABC123'') (MultiPartFormData seq0) = Inr key_form"
  by (simp add: add_field_def FormDataPart_def append_header_def add_header_def encode_field_def
      rfc2231_encode_def add_body_def latin1_encode_def utf8_char_def S_def B_def
      MultiPartFormData_def key_form_def)

lemma add_file_bare_file_form:
  "add_file (Some (S ''pan'')) None (MultiPartFormData seq0) = Inr bare_file_form"
  by (simp add: add_file_def FormDataPart_def append_header_def add_header_def encode_field_def
      rfc2231_encode_def utf8_char_def S_def B_def MultiPartFormData_def bare_file_form_def)

theorem part_headers_witness:
  "add_field (S ''apikey'') (S ''ABC123'') (MultiPartFormData seq0) = Inr key_form
   \<and> add_file (Some (S ''pan'')) None (MultiPartFormData seq0) = Inr bare_file_form
   \<and> content_disposition_line (hd (headers (last (parts key_form))))
   \<and> \<not> list_ex content_type_line (headers (last (parts key_form)))
   \<and> content_disposition_line (hd (headers (last (parts bare_file_form))))"
  using part_headers [of "S ''apikey''" "S ''ABC123''" "MultiPartFormData seq0" key_form
      "Some (S ''pan'')" None]
    part_headers [of "S ''apikey''" "S ''ABC123''" "MultiPartFormData seq0" bare_file_form
      "Some (S ''pan'')" None]
    add_field_key_form add_file_bare_file_form
  by simp

text \<open>
  C5 as stated fails for a file part added without a body: \<open>add_file(filename='pan')\<close>
  leaves a part whose only header is the Content-Disposition line.
\<close>

theorem file_part_content_type_counterexample:
  "add_file (Some (S ''pan'')) None (MultiPartFormData seq0) = Inr bare_file_form
   \<and> \<not> list_ex content_type_line (headers (last (parts bare_file_form)))
   \<and> B ''Content-Type: application/octet-stream'' \<notin> set (headers (last (parts bare_file_form)))"
proof -
  have "\<not> list_ex content_type_line (headers (last (parts bare_file_form)))"
    by (simp add: bare_file_form_def content_type_line_def B_def)
  moreover have "B ''Content-Type: application/octet-stream''
                 \<notin> set (headers (last (parts bare_file_form)))"
    by (simp add: bare_file_form_def B_def)
  ultimately show ?thesis using add_file_bare_file_form by simp
qed

section \<open>Classifying the response\<close>

lemma utf8_decode_Nil: "utf8_decode bs = Some [] \<longleftrightarrow> bs = []"
  by (cases bs) (auto split: if_splits list.splits)

lemma content_types_distinct:
  "S ''application/octet-stream'' \<noteq> S ''application/xml''"
  "S ''application/octet-stream'' \<noteq> S ''text/xml''"
  "S ''application/octet-stream'' \<noteq> S ''application/json''"
  "S ''application/octet-stream'' \<noteq> S ''text/html''"
  "S ''application/octet-stream'' \<noteq> S ''text/plain''"
  "S ''application/octet-stream'' \<noteq> []"
  "S ''application/xml'' \<noteq> []"
  "S ''text/xml'' \<noteq> []"
  "S ''application/xml'' \<noteq> S ''application/json''"
  "S ''application/xml'' \<noteq> S ''text/html''"
  "S ''application/xml'' \<noteq> S ''text/plain''"
  "S ''text/xml'' \<noteq> S ''application/json''"
  "S ''text/xml'' \<noteq> S ''text/html''"
  "S ''text/xml'' \<noteq> S ''text/plain''"
  "S ''application/json'' \<noteq> S ''text/html''"
  "S ''application/json'' \<noteq> S ''text/plain''"
  "S ''text/html'' \<noteq> S ''text/plain''"
  "S ''application/json'' \<noteq> []"
  "S ''text/html'' \<noteq> []"
  "S ''text/plain'' \<noteq> []"
  by (simp_all add: S_def)

lemma set_stream_response_True:
  assumes "set_stream_response m bs s = (True, s')"
  shows "\<exists>fname. get_filename m = Some fname \<and> fname \<noteq> []
           \<and> s' = s\<lparr>attachment := Some (fname, bs)\<rparr>"
  using assms by (auto simp: set_stream_response_def split: option.splits if_splits)

lemma set_xml_response_True:
  assumes "set_xml_response env bs s = (Inr True, s')"
  shows "response_type s' = Some (S ''xml'') \<and> attachment s' = attachment s
         \<and> (bs = [] \<longrightarrow> response_body s' = response_body s
                         \<and> xml_element_root s' = xml_element_root s)
         \<and> (bs \<noteq> [] \<longrightarrow> response_body s' \<noteq> None
                         \<and> (xml_element_root s' = xml_element_root s
                              \<or> xml_element_root s' \<noteq> None))"
  using assms
  by (auto simp: set_xml_response_def Let_def utf8_decode_Nil
      split: option.splits if_splits sum.splits)

lemma set_text_response_True:
  assumes "set_text_response tag bs s = (Inr True, s')"
  shows "response_type s' = Some tag \<and> attachment s' = attachment s
         \<and> xml_element_root s' = xml_element_root s
         \<and> (bs = [] \<longrightarrow> response_body s' = response_body s)
         \<and> (bs \<noteq> [] \<longrightarrow> response_body s' \<noteq> None)"
  using assms
  by (auto simp: set_text_response_def Let_def utf8_decode_Nil split: option.splits if_splits)

lemma set_response_cases:
  assumes "message s = Some m" and "set_response env r s = (Inr True, s')"
  shows "(get_content_type m = S ''application/octet-stream''
            \<and> set_stream_response m (read r) s = (True, s'))
         \<or> ((get_content_type m = S ''application/xml'' \<or> get_content_type m = S ''text/xml'')
            \<and> set_xml_response env (read r) s = (Inr True, s'))
         \<or> (get_content_type m = S ''application/json''
            \<and> set_text_response (S ''json'') (read r) s = (Inr True, s'))
         \<or> (get_content_type m = S ''text/html''
            \<and> set_text_response (S ''html'') (read r) s = (Inr True, s'))
         \<or> (get_content_type m = S ''text/plain''
            \<and> set_text_response (S ''txt'') (read r) s = (Inr True, s'))"
  using assms
  by (simp add: set_response_def Let_def set_json_response_def set_html_response_def
      set_txt_response_def split: if_splits prod.splits)

lemma set_response_stream:
  assumes "message s = Some m" and "get_content_type m = S ''application/octet-stream''"
  shows "set_response env r s
         = (case set_stream_response m (read r) s of (ok, s') \<Rightarrow> (Inr ok, s'))"
  using assms by (simp add: set_response_def Let_def content_types_distinct)

lemma set_response_xml:
  assumes "message s = Some m"
    and "get_content_type m = S ''application/xml'' \<or> get_content_type m = S ''text/xml''"
  shows "set_response env r s = set_xml_response env (read r) s"
  using assms
  by (auto simp: set_response_def Let_def content_types_distinct
      content_types_distinct [symmetric])

lemma set_response_text:
  assumes "message s = Some m"
  shows "get_content_type m = S ''application/json'' \<Longrightarrow>
           set_response env r s = set_text_response (S ''json'') (read r) s"
    and "get_content_type m = S ''text/html'' \<Longrightarrow>
           set_response env r s = set_text_response (S ''html'') (read r) s"
    and "get_content_type m = S ''text/plain'' \<Longrightarrow>
           set_response env r s = set_text_response (S ''txt'') (read r) s"
  using assms
  by (simp_all add: set_response_def Let_def content_types_distinct
      content_types_distinct [symmetric] set_json_response_def set_html_response_def
      set_txt_response_def)

text \<open>What a successful classification has left, whatever the answer was.\<close>

lemma success_fields:
  assumes "message s = Some m"
    and "response_body s = None" and "response_type s = None"
    and "xml_element_root s = None" and "attachment s = None"
    and "set_response env r s = (Inr True, s')"
  shows "(attachment s' \<noteq> None \<longleftrightarrow> get_content_type m = S ''application/octet-stream'')
         \<and> (attachment s' \<noteq> None \<longrightarrow>
               response_body s' = None \<and> xml_element_root s' = None \<and> response_type s' = None)
         \<and> (xml_element_root s' \<noteq> None \<longrightarrow>
               response_body s' \<noteq> None \<and> response_type s' = Some (S ''xml''))
         \<and> (get_content_type m = S ''application/xml'' \<or> get_content_type m = S ''text/xml''
               \<longrightarrow> response_type s' = Some (S ''xml''))
         \<and> (get_content_type m = S ''application/json'' \<longrightarrow> response_type s' = Some (S ''json''))
         \<and> (get_content_type m = S ''text/html'' \<longrightarrow> response_type s' = Some (S ''html''))
         \<and> (get_content_type m = S ''text/plain'' \<longrightarrow> response_type s' = Some (S ''txt''))
         \<and> (get_content_type m \<noteq> S ''application/octet-stream'' \<longrightarrow>
               (response_body s' \<noteq> None \<longleftrightarrow> read r \<noteq> []))
         \<and> (get_content_type m \<noteq> S ''application/octet-stream'' \<and> read r = [] \<longrightarrow>
               response_body s' = None \<and> xml_element_root s' = None \<and> attachment s' = None)"
proof -
  note d = content_types_distinct content_types_distinct [symmetric]
  from set_response_cases [OF assms(1) assms(6)]
  consider
    (stream) "get_content_type m = S ''application/octet-stream''"
      and "set_stream_response m (read r) s = (True, s')"
  | (xml) "get_content_type m = S ''application/xml'' \<or> get_content_type m = S ''text/xml''"
      and "set_xml_response env (read r) s = (Inr True, s')"
  | (json) "get_content_type m = S ''application/json''"
      and "set_text_response (S ''json'') (read r) s = (Inr True, s')"
  | (html) "get_content_type m = S ''text/html''"
      and "set_text_response (S ''html'') (read r) s = (Inr True, s')"
  | (plain) "get_content_type m = S ''text/plain''"
      and "set_text_response (S ''txt'') (read r) s = (Inr True, s')"
    by blast
  then show ?thesis
  proof cases
    case stream
    from set_stream_response_True [OF stream(2)] obtain fname
      where "s' = s\<lparr>attachment := Some (fname, read r)\<rparr>" by blast
    with stream(1) assms(2-5) show ?thesis by (simp add: d)
  next
    case xml
    from set_xml_response_True [OF xml(2)] xml(1) assms(2-5) show ?thesis
      by (cases "read r = []") (auto simp: d)
  next
    case json
    from set_text_response_True [OF json(2)] json(1) assms(2-5) show ?thesis
      by (cases "read r = []") (auto simp: d)
  next
    case html
    from set_text_response_True [OF html(2)] html(1) assms(2-5) show ?thesis
      by (cases "read r = []") (auto simp: d)
  next
    case plain
    from set_text_response_True [OF plain(2)] plain(1) assms(2-5) show ?thesis
      by (cases "read r = []") (auto simp: d)
  qed
qed

text \<open>An empty body under an XML, JSON, HTML or plain-text type: a success, nothing set.\<close>

lemma empty_body_success:
  assumes "message s = Some m"
    and "get_content_type m = S ''application/xml'' \<or> get_content_type m = S ''text/xml''
         \<or> get_content_type m = S ''application/json'' \<or> get_content_type m = S ''text/html''
         \<or> get_content_type m = S ''text/plain''"
    and "read r = []"
  shows "\<exists>tag. set_response env r s = (Inr True, s\<lparr>response_type := Some tag\<rparr>)"
proof -
  have x: "set_xml_response env [] s = (Inr True, s\<lparr>response_type := Some (S ''xml'')\<rparr>)"
    by (simp add: set_xml_response_def)
  have t: "set_text_response tag [] s = (Inr True, s\<lparr>response_type := Some tag\<rparr>)" for tag
    by (simp add: set_text_response_def)
  from assms(2) consider
    "get_content_type m = S ''application/xml'' \<or> get_content_type m = S ''text/xml''"
    | "get_content_type m = S ''application/json''" | "get_content_type m = S ''text/html''"
    | "get_content_type m = S ''text/plain''"
    by blast
  then show ?thesis
  proof cases
    case 1
    from set_response_xml [OF assms(1) 1, of env r] assms(3) x
    have "set_response env r s = (Inr True, s\<lparr>response_type := Some (S ''xml'')\<rparr>)" by simp
    then show ?thesis by blast
  next
    case 2
    from set_response_text(1) [OF assms(1) 2, of env r] assms(3) t [of "S ''json''"]
    have "set_response env r s = (Inr True, s\<lparr>response_type := Some (S ''json'')\<rparr>)" by simp
    then show ?thesis by blast
  next
    case 3
    from set_response_text(2) [OF assms(1) 3, of env r] assms(3) t [of "S ''html''"]
    have "set_response env r s = (Inr True, s\<lparr>response_type := Some (S ''html'')\<rparr>)" by simp
    then show ?thesis by blast
  next
    case 4
    from set_response_text(3) [OF assms(1) 4, of env r] assms(3) t [of "S ''txt''"]
    have "set_response env r s = (Inr True, s\<lparr>response_type := Some (S ''txt'')\<rparr>)" by simp
    then show ?thesis by blast
  qed
qed

text \<open>A body that decodes, under a JSON, HTML or plain-text type: a success with its text.\<close>

lemma text_body_success:
  assumes "message s = Some m"
    and "get_content_type m = S ''application/json'' \<or> get_content_type m = S ''text/html''
         \<or> get_content_type m = S ''text/plain''"
    and "utf8_decode (read r) = Some t" and "read r \<noteq> []"
  shows "\<exists>tag. set_response env r s
               = (Inr True, s\<lparr>response_type := Some tag, response_body := Some t\<rparr>)"
proof -
  from assms(3,4) have ne: "t \<noteq> []" using utf8_decode_Nil [of "read r"] by auto
  have t: "set_text_response tag (read r) s
           = (Inr True, s\<lparr>response_type := Some tag, response_body := Some t\<rparr>)" for tag
    using assms(3) ne by (simp add: set_text_response_def)
  from assms(2) consider "get_content_type m = S ''application/json''"
    | "get_content_type m = S ''text/html''" | "get_content_type m = S ''text/plain''"
    by blast
  then show ?thesis
  proof cases
    case 1
    from set_response_text(1) [OF assms(1) 1, of env r] t [of "S ''json''"]
    have "set_response env r s
          = (Inr True, s\<lparr>response_type := Some (S ''json''), response_body := Some t\<rparr>)"
      by simp
    then show ?thesis by blast
  next
    case 2
    from set_response_text(2) [OF assms(1) 2, of env r] t [of "S ''html''"]
    have "set_response env r s
          = (Inr True, s\<lparr>response_type := Some (S ''html''), response_body := Some t\<rparr>)"
      by simp
    then show ?thesis by blast
  next
    case 3
    from set_response_text(3) [OF assms(1) 3, of env r] t [of "S ''txt''"]
    have "set_response env r s
          = (Inr True, s\<lparr>response_type := Some (S ''txt''), response_body := Some t\<rparr>)"
      by simp
    then show ?thesis by blast
  qed
qed

text \<open>
  An XML body that decodes: a success with its text, and with the root the parser gives
  for what follows the leading line ends, if anything follows them.
\<close>

lemma xml_body_success:
  assumes "message s = Some m"
    and "get_content_type m = S ''application/xml'' \<or> get_content_type m = S ''text/xml''"
    and "utf8_decode (read r) = Some t" and "read r \<noteq> []"
  shows "strip_leading (read r) = [] \<Longrightarrow>
           set_response env r s
           = (Inr True, s\<lparr>response_type := Some (S ''xml''), response_body := Some t\<rparr>)"
    and "strip_leading (read r) \<noteq> [] \<Longrightarrow> fromstring env (strip_leading (read r)) = Inr el \<Longrightarrow>
           set_response env r s
           = (Inr True, s\<lparr>response_type := Some (S ''xml''), response_body := Some t,
                          xml_element_root := Some el\<rparr>)"
proof -
  from assms(3,4) have ne: "t \<noteq> []" using utf8_decode_Nil [of "read r"] by auto
  show "strip_leading (read r) = [] \<Longrightarrow>
          set_response env r s
          = (Inr True, s\<lparr>response_type := Some (S ''xml''), response_body := Some t\<rparr>)"
    using set_response_xml [OF assms(1,2), of env r] assms(3) ne
    by (simp add: set_xml_response_def Let_def)
  show "strip_leading (read r) \<noteq> [] \<Longrightarrow> fromstring env (strip_leading (read r)) = Inr el \<Longrightarrow>
          set_response env r s
          = (Inr True, s\<lparr>response_type := Some (S ''xml''), response_body := Some t,
                         xml_element_root := Some el\<rparr>)"
    using set_response_xml [OF assms(1,2), of env r] assms(3) ne
    by (simp add: set_xml_response_def Let_def)
qed

text \<open>A binary answer with a file name: a success with the attachment alone.\<close>

lemma stream_success:
  assumes "message s = Some m" and "get_content_type m = S ''application/octet-stream''"
    and "get_filename m = Some fname" and "fname \<noteq> []"
  shows "set_response env r s = (Inr True, s\<lparr>attachment := Some (fname, read r)\<rparr>)"
  using set_response_stream [OF assms(1,2), of env r] assms(3,4)
  by (simp add: set_stream_response_def)

text \<open>
  C1, as the code has it, for an instance whose response fields are clear. A binary answer
  with a file name is a success that populates the attachment alone, whatever the body,
  also an empty one, and sets no tag. An XML answer whose body decodes and holds more than
  line ends is a success, when the parser accepts it, that populates both the body text
  and the XML root. A JSON, HTML or plain-text answer whose body decodes and is not empty
  is a success that populates the body text alone. An empty body under an XML, JSON, HTML
  or plain-text type is a success that leaves all three fields unset. After any success:
  the attachment is populated exactly for \<open>application/octet-stream\<close> and then nothing
  else is, the tag included; the XML root is populated only together with the body text
  and the tag \<open>xml\<close>; the tag is \<open>xml\<close>, \<open>json\<close>, \<open>html\<close>, \<open>txt\<close> for the XML, JSON,
  HTML and plain-text types; and for these types the body text is populated exactly when
  the body is not empty.
\<close>

theorem classified_fields:
  assumes "message s = Some m"
    and "response_body s = None" and "response_type s = None"
    and "xml_element_root s = None" and "attachment s = None"
  shows "(get_content_type m = S ''application/octet-stream''
            \<and> get_filename m = Some fname \<and> fname \<noteq> [] \<longrightarrow>
            set_response env r s = (Inr True, s\<lparr>attachment := Some (fname, read r)\<rparr>))
         \<and> ((get_content_type m = S ''application/xml'' \<or> get_content_type m = S ''text/xml'')
            \<and> utf8_decode (read r) = Some t \<and> strip_leading (read r) \<noteq> []
            \<and> fromstring env (strip_leading (read r)) = Inr el \<longrightarrow>
            set_response env r s
            = (Inr True, s\<lparr>response_type := Some (S ''xml''), response_body := Some t,
                           xml_element_root := Some el\<rparr>))
         \<and> ((get_content_type m = S ''application/xml'' \<or> get_content_type m = S ''text/xml'')
            \<and> utf8_decode (read r) = Some t \<and> read r \<noteq> [] \<and> strip_leading (read r) = [] \<longrightarrow>
            set_response env r s
            = (Inr True, s\<lparr>response_type := Some (S ''xml''), response_body := Some t\<rparr>))
         \<and> ((get_content_type m = S ''application/json'' \<or> get_content_type m = S ''text/html''
              \<or> get_content_type m = S ''text/plain'')
            \<and> utf8_decode (read r) = Some t \<and> read r \<noteq> [] \<longrightarrow>
            fst (set_response env r s) = Inr True
            \<and> response_body (snd (set_response env r s)) = Some t
            \<and> xml_element_root (snd (set_response env r s)) = None
            \<and> attachment (snd (set_response env r s)) = None)
         \<and> ((get_content_type m = S ''application/xml'' \<or> get_content_type m = S ''text/xml''
              \<or> get_content_type m = S ''application/json''
              \<or> get_content_type m = S ''text/html'' \<or> get_content_type m = S ''text/plain'')
            \<and> read r = [] \<longrightarrow>
            fst (set_response env r s) = Inr True
            \<and> response_body (snd (set_response env r s)) = None
            \<and> xml_element_root (snd (set_response env r s)) = None
            \<and> attachment (snd (set_response env r s)) = None)
         \<and> (set_response env r s = (Inr True, s') \<longrightarrow>
            (attachment s' \<noteq> None \<longleftrightarrow> get_content_type m = S ''application/octet-stream'')
            \<and> (attachment s' \<noteq> None \<longrightarrow>
                  response_body s' = None \<and> xml_element_root s' = None
                  \<and> response_type s' = None)
            \<and> (xml_element_root s' \<noteq> None \<longrightarrow>
                  response_body s' \<noteq> None \<and> response_type s' = Some (S ''xml''))
            \<and> (get_content_type m = S ''application/xml'' \<or> get_content_type m = S ''text/xml''
                  \<longrightarrow> response_type s' = Some (S ''xml''))
            \<and> (get_content_type m = S ''application/json''
                  \<longrightarrow> response_type s' = Some (S ''json''))
            \<and> (get_content_type m = S ''text/html'' \<longrightarrow> response_type s' = Some (S ''html''))
            \<and> (get_content_type m = S ''text/plain'' \<longrightarrow> response_type s' = Some (S ''txt''))
            \<and> (get_content_type m \<noteq> S ''application/octet-stream'' \<longrightarrow>
                  (response_body s' \<noteq> None \<longleftrightarrow> read r \<noteq> []))
            \<and> (get_content_type m \<noteq> S ''application/octet-stream'' \<and> read r = [] \<longrightarrow>
                  response_body s' = None \<and> xml_element_root s' = None
                  \<and> attachment s' = None))"
proof -
  have a1: "get_content_type m = S ''application/octet-stream''
            \<and> get_filename m = Some fname \<and> fname \<noteq> [] \<longrightarrow>
            set_response env r s = (Inr True, s\<lparr>attachment := Some (fname, read r)\<rparr>)"
    using stream_success [OF assms(1)] by blast
  have a2: "(get_content_type m = S ''application/xml'' \<or> get_content_type m = S ''text/xml'')
            \<and> utf8_decode (read r) = Some t \<and> strip_leading (read r) \<noteq> []
            \<and> fromstring env (strip_leading (read r)) = Inr el \<longrightarrow>
            set_response env r s
            = (Inr True, s\<lparr>response_type := Some (S ''xml''), response_body := Some t,
                           xml_element_root := Some el\<rparr>)"
  proof
    assume a: "(get_content_type m = S ''application/xml'' \<or> get_content_type m = S ''text/xml'')
               \<and> utf8_decode (read r) = Some t \<and> strip_leading (read r) \<noteq> []
               \<and> fromstring env (strip_leading (read r)) = Inr el"
    then have "read r \<noteq> []" by auto
    with a show "set_response env r s
                 = (Inr True, s\<lparr>response_type := Some (S ''xml''), response_body := Some t,
                                xml_element_root := Some el\<rparr>)"
      using xml_body_success(2) [OF assms(1)] by blast
  qed
  have a3: "(get_content_type m = S ''application/xml'' \<or> get_content_type m = S ''text/xml'')
            \<and> utf8_decode (read r) = Some t \<and> read r \<noteq> [] \<and> strip_leading (read r) = [] \<longrightarrow>
            set_response env r s
            = (Inr True, s\<lparr>response_type := Some (S ''xml''), response_body := Some t\<rparr>)"
    using xml_body_success(1) [OF assms(1)] by blast
  have a4: "(get_content_type m = S ''application/json'' \<or> get_content_type m = S ''text/html''
              \<or> get_content_type m = S ''text/plain'')
            \<and> utf8_decode (read r) = Some t \<and> read r \<noteq> [] \<longrightarrow>
            fst (set_response env r s) = Inr True
            \<and> response_body (snd (set_response env r s)) = Some t
            \<and> xml_element_root (snd (set_response env r s)) = None
            \<and> attachment (snd (set_response env r s)) = None"
  proof
    assume "(get_content_type m = S ''application/json'' \<or> get_content_type m = S ''text/html''
              \<or> get_content_type m = S ''text/plain'')
            \<and> utf8_decode (read r) = Some t \<and> read r \<noteq> []"
    then obtain tag where
      e: "set_response env r s
          = (Inr True, s\<lparr>response_type := Some tag, response_body := Some t\<rparr>)"
      using text_body_success [OF assms(1), of r t env] by blast
    show "fst (set_response env r s) = Inr True
          \<and> response_body (snd (set_response env r s)) = Some t
          \<and> xml_element_root (snd (set_response env r s)) = None
          \<and> attachment (snd (set_response env r s)) = None"
      using assms(4,5) by (simp add: e)
  qed
  have a5: "(get_content_type m = S ''application/xml'' \<or> get_content_type m = S ''text/xml''
              \<or> get_content_type m = S ''application/json''
              \<or> get_content_type m = S ''text/html'' \<or> get_content_type m = S ''text/plain'')
            \<and> read r = [] \<longrightarrow>
            fst (set_response env r s) = Inr True
            \<and> response_body (snd (set_response env r s)) = None
            \<and> xml_element_root (snd (set_response env r s)) = None
            \<and> attachment (snd (set_response env r s)) = None"
  proof
    assume "(get_content_type m = S ''application/xml'' \<or> get_content_type m = S ''text/xml''
              \<or> get_content_type m = S ''application/json''
              \<or> get_content_type m = S ''text/html'' \<or> get_content_type m = S ''text/plain'')
            \<and> read r = []"
    then obtain tag where
      e: "set_response env r s = (Inr True, s\<lparr>response_type := Some tag\<rparr>)"
      using empty_body_success [OF assms(1), of r env] by blast
    show "fst (set_response env r s) = Inr True
          \<and> response_body (snd (set_response env r s)) = None
          \<and> xml_element_root (snd (set_response env r s)) = None
          \<and> attachment (snd (set_response env r s)) = None"
      using assms(2,4,5) by (simp add: e)
  qed
  have a6: "set_response env r s = (Inr True, s') \<longrightarrow>
            (attachment s' \<noteq> None \<longleftrightarrow> get_content_type m = S ''application/octet-stream'')
            \<and> (attachment s' \<noteq> None \<longrightarrow>
                  response_body s' = None \<and> xml_element_root s' = None
                  \<and> response_type s' = None)
            \<and> (xml_element_root s' \<noteq> None \<longrightarrow>
                  response_body s' \<noteq> None \<and> response_type s' = Some (S ''xml''))
            \<and> (get_content_type m = S ''application/xml'' \<or> get_content_type m = S ''text/xml''
                  \<longrightarrow> response_type s' = Some (S ''xml''))
            \<and> (get_content_type m = S ''application/json''
                  \<longrightarrow> response_type s' = Some (S ''json''))
            \<and> (get_content_type m = S ''text/html'' \<longrightarrow> response_type s' = Some (S ''html''))
            \<and> (get_content_type m = S ''text/plain'' \<longrightarrow> response_type s' = Some (S ''txt''))
            \<and> (get_content_type m \<noteq> S ''application/octet-stream'' \<longrightarrow>
                  (response_body s' \<noteq> None \<longleftrightarrow> read r \<noteq> []))
            \<and> (get_content_type m \<noteq> S ''application/octet-stream'' \<and> read r = [] \<longrightarrow>
                  response_body s' = None \<and> xml_element_root s' = None
                  \<and> attachment s' = None)"
    using success_fields [OF assms, of env r s'] by (rule impI)
  show ?thesis
    by (intro conjI, rule a1, rule a2, rule a3, rule a4, rule a5, rule a6)
qed

lemmas sample_defs =
  env_of_def client0_def response_of_def message_of_def sample_fromstring_def sample_responses_def
  xml_answer_def xml_client_def xml_pending_def

lemma utf8_decode_xml_doc: "utf8_decode (B ''<a/>'') = Some (S ''<a/>'')"
  by (simp add: B_def S_def)

lemma set_response_xml_answer:
  "set_response (env_of (Response xml_answer)) xml_answer xml_pending = (Inr True, xml_client)"
  by (simp add: set_response_def set_xml_response_def Let_def sample_defs utf8_decode_xml_doc
      content_types_distinct)
    (simp add: B_def S_def)

theorem classified_fields_witness:
  "message xml_pending = Some (message_of (S ''text/xml'') None)
   \<and> response_body xml_pending = None \<and> response_type xml_pending = None
   \<and> xml_element_root xml_pending = None \<and> attachment xml_pending = None
   \<and> utf8_decode (read xml_answer) = Some (S ''<a/>'')
   \<and> strip_leading (read xml_answer) \<noteq> []
   \<and> fromstring (env_of (Response xml_answer)) (strip_leading (read xml_answer)) = Inr (S ''a'')
   \<and> set_response (env_of (Response xml_answer)) xml_answer xml_pending = (Inr True, xml_client)
   \<and> attachment xml_client = None
   \<and> response_body xml_client = Some (S ''<a/>'')
   \<and> xml_element_root xml_client = Some (S ''a'')
   \<and> response_type xml_client = Some (S ''xml'')
   \<and> read (response_of 200 (S ''OK'') (S ''application/json'') None []) = []
   \<and> fst (set_response (env_of (URLError []))
              (response_of 200 (S ''OK'') (S ''application/json'') None [])
              (client0\<lparr>message := Some (message_of (S ''application/json'') None)\<rparr>)) = Inr True
   \<and> response_body (snd (set_response (env_of (URLError []))
              (response_of 200 (S ''OK'') (S ''application/json'') None [])
              (client0\<lparr>message := Some (message_of (S ''application/json'') None)\<rparr>))) = None
   \<and> get_filename (message_of (S ''application/octet-stream'') (Some (S ''a.pcap'')))
       = Some (S ''a.pcap'')
   \<and> set_response (env_of (URLError []))
         (response_of 200 (S ''OK'') (S ''application/octet-stream'') (Some (S ''a.pcap''))
            (B ''PCAP''))
         (client0\<lparr>message :=
                    Some (message_of (S ''application/octet-stream'') (Some (S ''a.pcap'')))\<rparr>)
       = (Inr True,
          client0\<lparr>message :=
                     Some (message_of (S ''application/octet-stream'') (Some (S ''a.pcap''))),
                  attachment := Some (S ''a.pcap'', B ''PCAP'')\<rparr>)"
proof -
  let ?jm = "message_of (S ''application/json'') None"
  let ?jr = "response_of 200 (S ''OK'') (S ''application/json'') None []"
  let ?sm = "message_of (S ''application/octet-stream'') (Some (S ''a.pcap''))"
  let ?sr = "response_of 200 (S ''OK'') (S ''application/octet-stream'') (Some (S ''a.pcap''))
               (B ''PCAP'')"
  have h: "message xml_pending = Some (message_of (S ''text/xml'') None)"
    "response_body xml_pending = None" "response_type xml_pending = None"
    "xml_element_root xml_pending = None" "attachment xml_pending = None"
    by (simp_all add: xml_pending_def client0_def)
  have x: "get_content_type (message_of (S ''text/xml'') None) = S ''text/xml''"
    "utf8_decode (read xml_answer) = Some (S ''<a/>'')"
    "strip_leading (read xml_answer) \<noteq> []"
    "fromstring (env_of (Response xml_answer)) (strip_leading (read xml_answer)) = Inr (S ''a'')"
    by (simp_all add: sample_defs utf8_decode_xml_doc, simp_all add: B_def)
  have c: "xml_pending\<lparr>response_type := Some (S ''xml''), response_body := Some (S ''<a/>''),
                       xml_element_root := Some (S ''a'')\<rparr> = xml_client"
    by (simp add: xml_pending_def xml_client_def)
  have y: "attachment xml_client = None" "response_body xml_client = Some (S ''<a/>'')"
    "xml_element_root xml_client = Some (S ''a'')" "response_type xml_client = Some (S ''xml'')"
    by (simp_all add: xml_client_def client0_def)
  have j: "message (client0\<lparr>message := Some ?jm\<rparr>) = Some ?jm"
    "response_body (client0\<lparr>message := Some ?jm\<rparr>) = None"
    "response_type (client0\<lparr>message := Some ?jm\<rparr>) = None"
    "xml_element_root (client0\<lparr>message := Some ?jm\<rparr>) = None"
    "attachment (client0\<lparr>message := Some ?jm\<rparr>) = None"
    by (simp_all add: client0_def)
  have jx: "get_content_type ?jm = S ''application/json''" "read ?jr = []"
    by (simp_all add: message_of_def response_of_def)
  have k: "message (client0\<lparr>message := Some ?sm\<rparr>) = Some ?sm"
    "response_body (client0\<lparr>message := Some ?sm\<rparr>) = None"
    "response_type (client0\<lparr>message := Some ?sm\<rparr>) = None"
    "xml_element_root (client0\<lparr>message := Some ?sm\<rparr>) = None"
    "attachment (client0\<lparr>message := Some ?sm\<rparr>) = None"
    by (simp_all add: client0_def)
  have kx: "get_content_type ?sm = S ''application/octet-stream''"
    "get_filename ?sm = Some (S ''a.pcap'')" "S ''a.pcap'' \<noteq> []" "read ?sr = B ''PCAP''"
    by (simp_all add: message_of_def response_of_def get_filename_def S_def)
  from classified_fields [OF h, of "S ''a.pcap''" "env_of (Response xml_answer)" xml_answer
      "S ''<a/>''" "S ''a''" xml_client] x c
  have 1: "set_response (env_of (Response xml_answer)) xml_answer xml_pending
           = (Inr True, xml_client)"
    by simp
  from classified_fields [OF j, of "S ''a.pcap''" "env_of (URLError [])" ?jr "[]" "[]"
      "client0"] jx
  have 2: "fst (set_response (env_of (URLError [])) ?jr (client0\<lparr>message := Some ?jm\<rparr>))
           = Inr True"
    "response_body (snd (set_response (env_of (URLError [])) ?jr
                           (client0\<lparr>message := Some ?jm\<rparr>))) = None"
    by simp_all
  from classified_fields [OF k, of "S ''a.pcap''" "env_of (URLError [])" ?sr "[]" "[]"
      "client0"] kx
  have 3: "set_response (env_of (URLError [])) ?sr (client0\<lparr>message := Some ?sm\<rparr>)
           = (Inr True, client0\<lparr>message := Some ?sm,
                                attachment := Some (S ''a.pcap'', B ''PCAP'')\<rparr>)"
    by simp
  from h x y jx kx 1 2 3 show ?thesis by simp
qed

text \<open>
  C1 as stated fails for an XML document: the exchange \<open>report(hash='abc')\<close> answered by
  \<open><a/>\<close> under \<open>text/xml\<close> completes without an error and leaves both the body text
  and the XML root populated.
\<close>

theorem exactly_one_field_counterexample:
  "fst xml_exchange = None
   \<and> response_body (fst (snd xml_exchange)) = Some (S ''<a/>'')
   \<and> xml_element_root (fst (snd xml_exchange)) = Some (S ''a'')
   \<and> attachment (fst (snd xml_exchange)) = None"
proof -
  have q: "urlencode [(S ''apikey'', S ''ABC123''), (S ''hash'', S ''abc'')]
           = Some (S ''apikey=ABC123&hash=abc'')"
    by (simp add: urlencode_def quote_plus_def quote_plus_byte_def quote_byte_def
        always_safe_def utf8_char_def S_def)
  have e: "utf8_encode (S ''apikey=ABC123&hash=abc'') \<noteq> None"
    by (simp add: utf8_char_def S_def)
  have a: "clear_response client0 = client0"
    by (simp add: clear_response_def client0_def)
  have k: "S ''apikey'' \<noteq> S ''hash''"
    by (simp add: S_def)
  have c: "api_key client0 = S ''ABC123''" "agent client0 = None"
    by (simp_all add: client0_def)
  have r: "api_request (env_of (Response xml_answer)) (S ''/publicapi/get/report'')
             (Str (S ''apikey=ABC123&hash=abc'')) [] client0
           = (Inr (Some xml_answer), xml_pending,
              [UrlOpen \<lparr>url = uri client0 @ S ''/publicapi/get/report'',
                        data = the (utf8_encode (S ''apikey=ABC123&hash=abc'')),
                        req_headers = []\<rparr> None])"
    using e by (auto simp: api_request_def Let_def sample_defs wildfire_responses_def S_def)
  have x: "xml_exchange
        = (None, xml_client,
           [UrlOpen \<lparr>url = uri client0 @ S ''/publicapi/get/report'',
                     data = the (utf8_encode (S ''apikey=ABC123&hash=abc'')),
                     req_headers = []\<rparr> None])"
    unfolding xml_exchange_def report_def
    by (simp add: a k c Let_def base_query_def opt_item_def send_query_def q
        request_and_set_def r set_response_xml_answer)
  show ?thesis unfolding x by (simp add: xml_client_def client0_def)
qed

text \<open>
  C7. A response declared \<open>text/xml\<close> or \<open>application/xml\<close> whose body is empty is
  classified with success: the tag becomes \<open>xml\<close>, no error is raised, \<open>_msg\<close> is not
  set, and the body text and the XML root of a cleared instance stay unset.
\<close>

theorem xml_empty_body:
  assumes "message s = Some m"
    and "get_content_type m = S ''text/xml'' \<or> get_content_type m = S ''application/xml''"
    and "read r = []"
    and "response_body s = None" and "xml_element_root s = None"
  shows "set_response env r s = (Inr True, s\<lparr>response_type := Some (S ''xml'')\<rparr>)
         \<and> response_body (snd (set_response env r s)) = None
         \<and> xml_element_root (snd (set_response env r s)) = None
         \<and> msg (snd (set_response env r s)) = msg s"
proof -
  have "set_response env r s = set_xml_response env [] s"
    using assms(1-3)
    by (auto simp: set_response_def Let_def content_types_distinct
        content_types_distinct [symmetric])
  also have "\<dots> = (Inr True, s\<lparr>response_type := Some (S ''xml'')\<rparr>)"
    by (simp add: set_xml_response_def)
  finally show ?thesis using assms(4,5) by simp
qed

theorem xml_empty_body_witness:
  "message xml_pending = Some (message_of (S ''text/xml'') None)
   \<and> read (response_of 200 (S ''OK'') (S ''text/xml'') None []) = []
   \<and> response_body xml_pending = None \<and> xml_element_root xml_pending = None
   \<and> set_response (env_of (URLError [])) (response_of 200 (S ''OK'') (S ''text/xml'') None [])
        xml_pending
      = (Inr True, xml_pending\<lparr>response_type := Some (S ''xml'')\<rparr>)"
proof -
  have h: "message xml_pending = Some (message_of (S ''text/xml'') None)"
    "get_content_type (message_of (S ''text/xml'') None) = S ''text/xml''
     \<or> get_content_type (message_of (S ''text/xml'') None)
        = S ''application/xml''"
    "read (response_of 200 (S ''OK'') (S ''text/xml'') None []) = []"
    "response_body xml_pending = None" "xml_element_root xml_pending = None"
    by (simp_all add: xml_pending_def client0_def response_of_def message_of_def)
  from xml_empty_body [OF h, of "env_of (URLError [])"] h show ?thesis by simp
qed

text \<open>
  C8, as the code has it. A response declared \<open>application/octet-stream\<close> whose headers
  give no file name, neither as the \<open>filename\<close> of Content-Disposition nor as the
  \<open>name\<close> of Content-Type, or give an empty one, is classified with failure, not with
  an exception: \<open>_msg\<close> becomes the missing-header message and the attachment is left as
  it was.
\<close>

theorem stream_without_filename:
  assumes "message s = Some m"
    and "get_content_type m = S ''application/octet-stream''"
    and "(disposition_filename m = None
            \<and> (content_type_name m = None \<or> content_type_name m = Some []))
         \<or> disposition_filename m = Some []"
  shows "set_response env r s
         = (Inr False, s\<lparr>msg := Some (S ''no content-disposition response header'')\<rparr>)
         \<and> attachment (snd (set_response env r s)) = attachment s"
proof -
  from assms(3) have "get_filename m = None \<or> get_filename m = Some []"
    by (auto simp: get_filename_def)
  with assms(1,2) show ?thesis
    by (auto simp: set_response_def Let_def set_stream_response_def content_types_distinct)
qed

theorem stream_without_filename_witness:
  "message (client0\<lparr>message := Some (message_of (S ''application/octet-stream'') None)\<rparr>)
   = Some (message_of (S ''application/octet-stream'') None)
   \<and> disposition_filename (message_of (S ''application/octet-stream'') None) = None
   \<and> content_type_name (message_of (S ''application/octet-stream'') None) = None
   \<and> set_response (env_of (URLError []))
        (response_of 200 (S ''OK'') (S ''application/octet-stream'') None (B ''PCAP''))
        (client0\<lparr>message := Some (message_of (S ''application/octet-stream'') None)\<rparr>)
      = (Inr False,
         client0\<lparr>message := Some (message_of (S ''application/octet-stream'') None),
                 msg := Some (S ''no content-disposition response header'')\<rparr>)
   \<and> attachment (client0\<lparr>message := Some (message_of (S ''application/octet-stream'') None),
                 msg := Some (S ''no content-disposition response header'')\<rparr>) = None"
proof -
  let ?m = "message_of (S ''application/octet-stream'') None"
  have h: "message (client0\<lparr>message := Some ?m\<rparr>) = Some ?m"
    "get_content_type ?m = S ''application/octet-stream''"
    "(disposition_filename ?m = None
        \<and> (content_type_name ?m = None \<or> content_type_name ?m = Some []))
     \<or> disposition_filename ?m = Some []"
    by (simp_all add: message_of_def)
  have p: "disposition_filename ?m = None" "content_type_name ?m = None"
    by (simp_all add: message_of_def)
  from stream_without_filename [OF h, of "env_of (URLError [])"
      "response_of 200 (S ''OK'') (S ''application/octet-stream'') None (B ''PCAP'')"] p
  show ?thesis by (simp add: client0_def)
qed

text \<open>
  C8 as stated fails where Content-Type names the file: with no Content-Disposition at
  all and \<open>Content-Type: application/octet-stream; name=x.pcap\<close>, \<open>get_filename()\<close>
  returns \<open>x.pcap\<close>, the classification succeeds and the attachment is populated.
\<close>

theorem stream_without_disposition_counterexample:
  "disposition_filename named_message = None
   \<and> get_content_type named_message = S ''application/octet-stream''
   \<and> set_response (env_of (Response named_answer)) named_answer
        (client0\<lparr>message := Some named_message\<rparr>)
      = (Inr True,
         client0\<lparr>message := Some named_message,
                 attachment := Some (S ''x.pcap'', B ''PCAP'')\<rparr>)"
  by (simp add: set_response_def set_stream_response_def get_filename_def Let_def
      named_message_def named_answer_def content_types_distinct)
    (simp add: S_def)

section \<open>The exchange\<close>





lemma api_request_events:
  assumes "api_request env u b hdrs s = (res, s', ev)"
  shows "(ev = [] \<and> res = Inl UnicodeEncodeError \<and> s' = s
            \<and> (case b of Str t \<Rightarrow> utf8_encode t | Bytes bs \<Rightarrow> Some bs) = None)
         \<or> (\<exists>bs. (case b of Str t \<Rightarrow> utf8_encode t | Bytes bs \<Rightarrow> Some bs) = Some bs
                \<and> ev = [UrlOpen \<lparr>url = uri s @ u, data = bs, req_headers = hdrs\<rparr> (timeout s)])"
  using assms
  by (auto simp: api_request_def Let_def
      split: option.splits urlopen_result.splits sum.splits if_splits prod.splits)





section \<open>The precondition of \<open>submit\<close>\<close>

lemma submit_rejected:
  "given file url' links \<noteq> 1 \<Longrightarrow> submit env file url' links s = rejected s"
  by (simp add: submit_def given_def rejected_def Let_def)

lemma submit_not_rejected:
  "given file url' links = 1 \<Longrightarrow>
   submit env file url' links s =
     (case submit_uri file url' links of
        Inl e \<Rightarrow> (Some e, clear_response s, [])
      | Inr request_uri \<Rightarrow>
        (case base_form env (clear_response s) of
           Inl e \<Rightarrow> (Some e, clear_response s, [])
         | Inr f0 \<Rightarrow>
           (case submit_file env file f0 (clear_response s) of
              (Inl e, s1, ev) \<Rightarrow> (Some e, s1, ev)
            | (Inr f1, s1, ev) \<Rightarrow>
              (case and_then (opt_field (S ''url'') url' f1) (submit_links links) of
                 Inl e \<Rightarrow> (Some e, s1, ev)
               | Inr f2 \<Rightarrow>
                 (case send_form env request_uri f2 s1 of
                    (r, s2, ev') \<Rightarrow> (r, s2, ev @ ev'))))))"
  by (simp add: submit_def given_def Let_def)

text \<open>Building a form raises encoding errors only, never a PanWFapiError.\<close>

lemma encode_field_error: "encode_field k v = Inl e \<Longrightarrow> e = UnicodeEncodeError"
  by (auto simp: encode_field_def split: option.splits if_splits)

lemma append_header_error:
  "append_header k v p = Inl e \<Longrightarrow> e = UnicodeEncodeError \<or> e = IndexError"
  by (auto simp: append_header_def split: sum.splits if_splits dest: encode_field_error)

lemma add_body_error: "add_body b p = Inl e \<Longrightarrow> e = UnicodeEncodeError"
  by (auto simp: add_body_def split: pybody.splits option.splits)

lemma FormDataPart_error:
  "FormDataPart name b = Inl e \<Longrightarrow> e = UnicodeEncodeError \<or> e = IndexError"
  by (auto simp: FormDataPart_def split: sum.splits option.splits
      dest: append_header_error add_body_error)

lemma add_field_error:
  "add_field name v f = Inl e \<Longrightarrow> e = UnicodeEncodeError \<or> e = IndexError"
  by (auto simp: add_field_def split: sum.splits dest: FormDataPart_error)

lemma add_file_error:
  "add_file fname b f = Inl e \<Longrightarrow> e = UnicodeEncodeError \<or> e = IndexError"
  by (auto simp: add_file_def split: sum.splits option.splits
      dest: FormDataPart_error append_header_error add_body_error)

lemma opt_field_error:
  "opt_field k v f = Inl e \<Longrightarrow> e = UnicodeEncodeError \<or> e = IndexError"
  by (auto simp: opt_field_def split: option.splits dest: add_field_error)

lemma base_form_error:
  "base_form env s = Inl e \<Longrightarrow> e = UnicodeEncodeError \<or> e = IndexError"
  by (auto simp: base_form_def and_then_def split: sum.splits
      dest: add_field_error opt_field_error)

lemma submit_links_error:
  "submit_links links f = Inl e \<Longrightarrow> e = UnicodeEncodeError \<or> e = IndexError"
  by (auto simp: submit_links_def split: option.splits if_splits
      dest: add_field_error add_file_error)

lemma send_form_events:
  assumes "send_form env u f s = (r, s', ev)"
  shows "(r = Some UnicodeDecodeError \<and> ev = [])
         \<or> (\<exists>hdrs. ev = [UrlOpen \<lparr>url = uri s @ u, data = http_body f, req_headers = hdrs\<rparr>
                               (timeout s)])"
proof (cases "http_headers f")
  case (Inl e)
  with assms show ?thesis
    by (auto simp: send_form_def http_headers_def split: option.splits)
next
  case (Inr hdrs)
  obtain res s1 ev1 where a: "api_request env u (Bytes (http_body f)) hdrs s = (res, s1, ev1)"
    by (cases "api_request env u (Bytes (http_body f)) hdrs s") auto
  from api_request_events [OF a]
  have e: "ev1 = [UrlOpen \<lparr>url = uri s @ u, data = http_body f, req_headers = hdrs\<rparr> (timeout s)]"
    by auto
  from assms Inr a have "ev = ev1"
    by (auto simp: send_form_def request_and_set_def
        split: sum.splits option.splits prod.splits bool.splits)
  with e show ?thesis by blast
qed

lemma submit_file_events:
  assumes "submit_file env file f s = (x, s1, ev)"
  shows "(file = None \<and> ev = [] \<and> x = Inr f \<and> s1 = s)
         \<or> (\<exists>path. file = Some path \<and> ev = [FileRead path])"
  using assms
  by (auto simp: submit_file_def split: option.splits prod.splits)

lemma submit_accepted:
  assumes "given file url' links = 1"
    and "submit env file url' links s = (r, s', ev)"
  shows "ev \<noteq> [] \<or> (\<forall>m. r \<noteq> Some (PanWFapiError m))"
proof -
  have uri: "\<exists>u. submit_uri file url' links = Inr u"
    using assms(1)
    by (auto simp: submit_uri_def given_def truthy_def split: option.splits if_splits)
  then obtain u where u: "submit_uri file url' links = Inr u" ..
  show ?thesis
  proof (cases "base_form env (clear_response s)")
    case (Inl e)
    with assms u base_form_error [OF Inl] show ?thesis
      by (auto simp: submit_not_rejected)
  next
    case f0: (Inr f0)
    obtain x s1 ev1 where sf: "submit_file env file f0 (clear_response s) = (x, s1, ev1)"
      by (cases "submit_file env file f0 (clear_response s)") auto
    show ?thesis
    proof (cases x)
      case (Inl e)
      from submit_file_events [OF sf] Inl have "ev1 \<noteq> []" by auto
      with assms u f0 sf Inl show ?thesis
        by (auto simp: submit_not_rejected)
    next
      case f1: (Inr f1)
      show ?thesis
      proof (cases "and_then (opt_field (S ''url'') url' f1) (submit_links links)")
        case (Inl e)
        then have "e = UnicodeEncodeError \<or> e = IndexError"
          by (auto simp: and_then_def split: sum.splits
              dest: opt_field_error submit_links_error)
        with assms u f0 sf f1 Inl show ?thesis
          by (auto simp: submit_not_rejected)
      next
        case f2: (Inr f2)
        obtain r2 s2 ev2 where sd: "send_form env u f2 s1 = (r2, s2, ev2)"
          by (cases "send_form env u f2 s1") auto
        from assms u f0 sf f1 f2 sd have "r = r2" "ev = ev1 @ ev2"
          by (auto simp: submit_not_rejected)
        with send_form_events [OF sd] show ?thesis by auto
      qed
    qed
  qed
qed

lemma base_form_client0:
  "base_form (env_of res) client0 = Inr key_form"
  using add_field_key_form
  by (simp add: base_form_def and_then_def opt_field_def env_of_def client0_def)

lemma clear_response_samples:
  "clear_response client0 = client0" "clear_response stale_client = client0"
  by (simp_all add: clear_response_def client0_def stale_client_def)

text \<open>
  C3, as the code has it. Where both \<open>file\<close> and \<open>url\<close> are true values (neither
  \<open>None\<close> nor empty), or none of \<open>file\<close>, \<open>url\<close>, \<open>links\<close> is, the call raises the
  precondition error with the response fields cleared and with no file read and no
  request made.
\<close>

theorem submit_both_or_none:
  assumes "(truthy file \<and> truthy url') \<or> (\<not> truthy file \<and> \<not> truthy url' \<and> \<not> truthy links)"
  shows "submit env file url' links s
         = (Some (PanWFapiError (Some (S ''must submit one of file, url or links''))),
            clear_response s, [])"
proof -
  from assms have "given file url' links \<noteq> 1"
    by (auto simp: given_def)
  from submit_rejected [OF this] show ?thesis
    by (simp add: rejected_def precondition_msg_def)
qed

theorem submit_both_or_none_witness:
  "truthy (Some (S ''a.exe'')) \<and> truthy (Some (S ''http://x''))
   \<and> submit (env_of (URLError [])) (Some (S ''a.exe'')) (Some (S ''http://x'')) None stale_client
      = (Some (PanWFapiError (Some (S ''must submit one of file, url or links''))), client0, [])
   \<and> \<not> truthy (None :: str option) \<and> \<not> truthy (None :: str list option)
   \<and> submit (env_of (URLError [])) None None None stale_client
      = (Some (PanWFapiError (Some (S ''must submit one of file, url or links''))), client0, [])"
proof -
  have t: "truthy (Some (S ''a.exe''))" "truthy (Some (S ''http://x''))"
    "\<not> truthy (None :: str option)" "\<not> truthy (None :: str list option)"
    by (simp_all add: truthy_def S_def)
  from t have a: "(truthy (Some (S ''a.exe'')) \<and> truthy (Some (S ''http://x'')))
      \<or> (\<not> truthy (Some (S ''a.exe'')) \<and> \<not> truthy (Some (S ''http://x''))
          \<and> \<not> truthy (None :: str list option))"
    by simp
  from t have b: "(truthy (None :: str option) \<and> truthy (None :: str option))
      \<or> (\<not> truthy (None :: str option) \<and> \<not> truthy (None :: str option)
          \<and> \<not> truthy (None :: str list option))"
    by simp
  from submit_both_or_none [OF a, of "env_of (URLError [])" stale_client]
    submit_both_or_none [OF b, of "env_of (URLError [])" stale_client] t
  show ?thesis by (simp add: clear_response_samples)
qed

text \<open>
  C3 as stated, with "given" read as "passed": \<open>submit(file='', url='http://x')\<close> passes
  both \<open>file\<close> and \<open>url\<close>, is not stopped by the precondition and tries to read the
  file \<open>''\<close>.
\<close>

theorem submit_both_given_counterexample:
  "submit (env_of (URLError [])) (Some []) (Some (S ''http://x'')) None client0
   = (Some (PanWFapiError (Some (S ''open: : [Errno 2] No such file or directory''))),
      client0\<lparr>msg := Some (S ''open: : [Errno 2] No such file or directory'')\<rparr>,
      [FileRead []])"
proof -
  have g: "given (Some []) (Some (S ''http://x'')) None = 1"
    by (simp add: given_def truthy_def S_def)
  have m: "S ''open: '' @ [] @ S '': '' @ S ''[Errno 2] No such file or directory''
           = S ''open: : [Errno 2] No such file or directory''"
    by (simp add: S_def)
  have f: "submit_file (env_of (URLError [])) (Some []) key_form client0
           = (Inl (PanWFapiError (Some (S ''open: : [Errno 2] No such file or directory''))),
              client0\<lparr>msg := Some (S ''open: : [Errno 2] No such file or directory'')\<rparr>,
              [FileRead []])"
    using m by (simp add: submit_file_def read_file_def env_of_def)
  show ?thesis
    by (simp add: submit_not_rejected [OF g] submit_uri_def clear_response_samples
        base_form_client0 f)
qed

text \<open>
  C10. The precondition of \<open>submit\<close> counts true values: \<open>file=''\<close> alone and
  \<open>links=[]\<close> alone are rejected although one argument was passed; a call is rejected
  exactly when the number of true values among \<open>file\<close>, \<open>url\<close>, \<open>links\<close> is not one;
  and with one true value, false ones beside it or not, the call goes on to read the file
  or to send the request, or stops at an encoding error, but raises no PanWFapiError
  without such activity.
\<close>

theorem submit_counts_truth:
  "submit env (Some []) None None s = rejected s
   \<and> submit env None None (Some []) s = rejected s
   \<and> (submit env file url' links s = rejected s \<longleftrightarrow> given file url' links \<noteq> 1)
   \<and> (given file url' links = 1 \<longrightarrow>
        snd (snd (submit env file url' links s)) \<noteq> []
        \<or> (\<forall>m. fst (submit env file url' links s) \<noteq> Some (PanWFapiError m)))"
proof -
  have a: "submit env (Some []) None None s = rejected s"
    by (rule submit_rejected) (simp add: given_def truthy_def)
  have b: "submit env None None (Some []) s = rejected s"
    by (rule submit_rejected) (simp add: given_def truthy_def)
  have c: "snd (snd (submit env file url' links s)) \<noteq> []
           \<or> (\<forall>m. fst (submit env file url' links s) \<noteq> Some (PanWFapiError m))"
    if g: "given file url' links = 1"
  proof -
    obtain r s' ev where o: "submit env file url' links s = (r, s', ev)"
      by (cases "submit env file url' links s") auto
    from submit_accepted [OF g o] o show ?thesis by simp
  qed
  have d: "submit env file url' links s \<noteq> rejected s" if g: "given file url' links = 1"
    using c [OF g] by (auto simp: rejected_def)
  from a b c d submit_rejected show ?thesis by blast
qed

theorem submit_counts_truth_witness:
  "given (Some []) (Some (S ''http://x'')) None = 1
   \<and> snd (snd (submit (env_of (URLError [])) (Some []) (Some (S ''http://x'')) None client0))
     = [FileRead []]
   \<and> submit (env_of (URLError [])) (Some []) (Some (S ''http://x'')) None client0
     \<noteq> rejected client0"
proof -
  have g: "given (Some []) (Some (S ''http://x'')) None = 1"
    by (simp add: given_def truthy_def S_def)
  have m: "S ''open: '' @ [] @ S '': '' @ S ''[Errno 2] No such file or directory''
           = S ''open: : [Errno 2] No such file or directory''"
    by (simp add: S_def)
  have f: "submit_file (env_of (URLError [])) (Some []) key_form client0
           = (Inl (PanWFapiError (Some (S ''open: : [Errno 2] No such file or directory''))),
              client0\<lparr>msg := Some (S ''open: : [Errno 2] No such file or directory'')\<rparr>,
              [FileRead []])"
    using m by (simp add: submit_file_def read_file_def env_of_def)
  have e: "snd (snd (submit (env_of (URLError [])) (Some []) (Some (S ''http://x'')) None client0))
           = [FileRead []]"
    by (simp add: submit_not_rejected [OF g] submit_uri_def clear_response_samples
        base_form_client0 f)
  from submit_counts_truth [of "env_of (URLError [])" client0 "Some []" "Some (S ''http://x'')" None]
    g e
  show ?thesis by simp
qed

section \<open>Submitting a list of links\<close>

lemma of_nat_ascii: "k < 128 \<Longrightarrow> (of_nat k :: byte) < 0x80"
  by (simp add: word_less_nat_alt unat_of_nat)

lemma b64char_ascii: "b64char n < 0x80"
proof -
  consider "n < 26" | "26 \<le> n \<and> n < 52" | "52 \<le> n \<and> n < 62" | "n = 62" | "62 < n"
    by linarith
  then show ?thesis
  proof cases
    case 1
    then have "b64char n = of_nat (65 + n)" by (simp add: b64char_def)
    moreover have "65 + n < 128" using 1 by simp
    ultimately show ?thesis by (simp only: of_nat_ascii)
  next
    case 2
    then have "b64char n = of_nat (71 + n)" by (simp add: b64char_def)
    moreover have "71 + n < 128" using 2 by simp
    ultimately show ?thesis by (simp only: of_nat_ascii)
  next
    case 3
    then have "b64char n = of_nat (n - 4)" by (simp add: b64char_def)
    moreover have "n - 4 < 128" using 3 by linarith
    ultimately show ?thesis by (simp only: of_nat_ascii)
  next
    case 4
    then show ?thesis by (simp add: b64char_def)
  next
    case 5
    then show ?thesis by (simp add: b64char_def)
  qed
qed

lemma b64encode_ascii: "list_all (\<lambda>b. b < 0x80) (b64encode bs)"
  by (induction bs rule: b64encode.induct) (simp_all add: b64char_ascii)

lemma make_boundary_ascii:
  "ascii_decode (make_boundary seq) = Some (map unat (make_boundary seq))"
  using b64encode_ascii [of seq]
  by (simp add: ascii_decode_def make_boundary_def list_all_iff)

lemma add_field_boundary: "add_field k v f = Inr f' \<Longrightarrow> boundary f' = boundary f"
  by (auto simp: add_field_def split: sum.splits)

lemma base_form_boundary:
  assumes "base_form env s = Inr f"
  shows "boundary f = make_boundary (urandom env)"
  using assms
  by (auto simp: base_form_def and_then_def opt_field_def MultiPartFormData_def
      split: sum.splits option.splits dest!: add_field_boundary)

lemma latin1_encode_append:
  "latin1_encode (a @ b) = Some r \<longleftrightarrow>
     (\<exists>x y. latin1_encode a = Some x \<and> latin1_encode b = Some y \<and> r = x @ y)"
  by (auto simp: latin1_encode_def)

lemma latin1_magic: "latin1_encode (magic @ S ''\<newline>'') = Some (B ''panlnk\<newline>'')"
  by (simp add: latin1_encode_def magic_def S_def B_def)

lemma add_file_pan:
  "add_file (Some (S ''pan'')) (Some (Str t)) f =
     (case latin1_encode t of
        None \<Rightarrow> Inl UnicodeEncodeError
      | Some bs \<Rightarrow> Inr (f\<lparr>parts := parts f @ [links_part bs]\<rparr>))"
  by (simp add: add_file_def FormDataPart_def append_header_def add_header_def add_body_def
      encode_field_def rfc2231_encode_def utf8_char_def links_part_def pan_disposition_def
      S_def B_def split: option.splits)

lemma submit_links_many:
  assumes "2 \<le> length l" and "latin1_encode (join (S ''\<newline>'') l) = Some bs"
  shows "submit_links (Some l) f =
           Inr (f\<lparr>parts := parts f
                     @ [links_part (if hd l = magic then bs else B ''panlnk\<newline>'' @ bs)]\<rparr>)"
proof -
  have "latin1_encode (magic @ S ''\<newline>'' @ join (S ''\<newline>'') l) = Some (B ''panlnk\<newline>'' @ bs)"
    using latin1_encode_append [of "magic @ S ''\<newline>''" "join (S ''\<newline>'') l"] latin1_magic assms(2)
    by simp
  with assms show ?thesis
    by (simp add: submit_links_def add_file_pan)
qed

lemma submit_links_unencodable:
  assumes "2 \<le> length l" and "latin1_encode (join (S ''\<newline>'') l) = None"
  shows "submit_links (Some l) f = Inl UnicodeEncodeError"
proof -
  have "latin1_encode (magic @ S ''\<newline>'' @ join (S ''\<newline>'') l) = None"
    using assms(2) by (auto simp: latin1_encode_def)
  with assms show ?thesis
    by (simp add: submit_links_def add_file_pan)
qed

lemma send_form_request:
  assumes "http_headers f = Inr hdrs"
  shows "snd (snd (send_form env u f s))
         = [UrlOpen \<lparr>url = uri s @ u, data = http_body f, req_headers = hdrs\<rparr> (timeout s)]"
proof -
  obtain res s1 ev1 where a: "api_request env u (Bytes (http_body f)) hdrs s = (res, s1, ev1)"
    by (cases "api_request env u (Bytes (http_body f)) hdrs s") auto
  from api_request_events [OF a]
  have "ev1 = [UrlOpen \<lparr>url = uri s @ u, data = http_body f, req_headers = hdrs\<rparr> (timeout s)]"
    by auto
  with assms a show ?thesis
    by (auto simp: send_form_def request_and_set_def
        split: sum.splits option.splits prod.splits bool.splits)
qed

text \<open>
  C4, as the code has it. For a list of two or more links whose text is within Latin-1,
  the block of \<open>submit\<close> for links adds one file part named \<open>pan\<close> of type
  \<open>application/octet-stream\<close>; its body is the Latin-1 octets of the links joined by
  newlines, after the line \<open>panlnk\<close> unless the first link is \<open>panlnk\<close> already. Where
  only \<open>links\<close> is passed and the key and the agent can be encoded, the form with that
  part is the body of the one request the call sends, to \<open>/publicapi/submit/links\<close>.
\<close>

theorem submit_links_body:
  assumes "2 \<le> length l" and "latin1_encode (join (S ''\<newline>'') l) = Some bs"
  shows "submit_links (Some l) f =
           Inr (f\<lparr>parts := parts f
                     @ [links_part (if hd l = magic then bs else B ''panlnk\<newline>'' @ bs)]\<rparr>)
         \<and> (base_form env (clear_response s) = Inr f0 \<longrightarrow>
              snd (snd (submit env None None (Some l) s))
              = [UrlOpen
                   \<lparr>url = uri s @ S ''/publicapi/submit/links'',
                    data = http_body
                             (f0\<lparr>parts := parts f0
                                    @ [links_part (if hd l = magic then bs
                                                   else B ''panlnk\<newline>'' @ bs)]\<rparr>),
                    req_headers = [(S ''Content-Type'',
                                    S ''multipart/form-data; boundary=''
                                      @ map unat (make_boundary (urandom env)))]\<rparr>
                   (timeout s)])"
proof (intro conjI impI)
  show "submit_links (Some l) f =
          Inr (f\<lparr>parts := parts f
                    @ [links_part (if hd l = magic then bs else B ''panlnk\<newline>'' @ bs)]\<rparr>)"
    by (rule submit_links_many [OF assms])
next
  assume f0: "base_form env (clear_response s) = Inr f0"
  let ?f2 = "f0\<lparr>parts := parts f0
                  @ [links_part (if hd l = magic then bs else B ''panlnk\<newline>'' @ bs)]\<rparr>"
  let ?hdrs = "[(S ''Content-Type'',
                 S ''multipart/form-data; boundary='' @ map unat (make_boundary (urandom env)))]"
  from assms(1) have ne: "l \<noteq> []" by auto
  then have g: "given None None (Some l) = 1"
    by (simp add: given_def truthy_def)
  have u: "submit_uri None None (Some l) = Inr (S ''/publicapi/submit/links'')"
    using assms(1) by (simp add: submit_uri_def)
  have h: "http_headers ?f2 = Inr ?hdrs"
    using base_form_boundary [OF f0] make_boundary_ascii [of "urandom env"]
    by (simp add: http_headers_def)
  have "submit env None None (Some l) s
        = (case send_form env (S ''/publicapi/submit/links'') ?f2 (clear_response s) of
             (r, s2, ev') \<Rightarrow> (r, s2, [] @ ev'))"
    by (simp add: submit_not_rejected [OF g] u f0 submit_file_def opt_field_def and_then_def
        submit_links_many [OF assms])
  then have "snd (snd (submit env None None (Some l) s))
             = snd (snd (send_form env (S ''/publicapi/submit/links'') ?f2 (clear_response s)))"
    by (simp split: prod.splits)
  also have "\<dots> = [UrlOpen \<lparr>url = uri (clear_response s) @ S ''/publicapi/submit/links'',
                             data = http_body ?f2, req_headers = ?hdrs\<rparr>
                      (timeout (clear_response s))]"
    by (rule send_form_request [OF h])
  finally show "snd (snd (submit env None None (Some l) s))
                = [UrlOpen \<lparr>url = uri s @ S ''/publicapi/submit/links'', data = http_body ?f2,
                            req_headers = ?hdrs\<rparr> (timeout s)]"
    by (simp add: clear_response_def)
qed

theorem submit_links_body_witness:
  "2 \<le> length [S ''http://a'', S ''http://b'']
   \<and> latin1_encode (join (S ''\<newline>'') [S ''http://a'', S ''http://b''])
       = Some (B ''http://a\<newline>http://b'')
   \<and> base_form (env_of (URLError [])) (clear_response client0) = Inr key_form
   \<and> submit_links (Some [S ''http://a'', S ''http://b'']) key_form
       = Inr (key_form\<lparr>parts := parts key_form
                @ [links_part (B ''panlnk\<newline>http://a\<newline>http://b'')]\<rparr>)
   \<and> snd (snd (submit (env_of (URLError [])) None None
                  (Some [S ''http://a'', S ''http://b'']) client0))
       = [UrlOpen
            \<lparr>url = uri client0 @ S ''/publicapi/submit/links'',
             data = http_body
                      (key_form\<lparr>parts := parts key_form
                         @ [links_part (B ''panlnk\<newline>http://a\<newline>http://b'')]\<rparr>),
             req_headers = [(S ''Content-Type'',
                             S ''multipart/form-data; boundary=''
                               @ map unat (make_boundary seq0))]\<rparr>
            (timeout client0)]"
proof -
  have a: "2 \<le> length [S ''http://a'', S ''http://b'']" by simp
  have b: "latin1_encode (join (S ''\<newline>'') [S ''http://a'', S ''http://b''])
           = Some (B ''http://a\<newline>http://b'')"
    by (simp add: latin1_encode_def S_def B_def)
  have c: "base_form (env_of (URLError [])) (clear_response client0) = Inr key_form"
    by (simp add: clear_response_samples base_form_client0)
  have d: "hd [S ''http://a'', S ''http://b''] \<noteq> magic"
    by (simp add: magic_def S_def)
  have e: "B ''panlnk\<newline>'' @ B ''http://a\<newline>http://b'' = B ''panlnk\<newline>http://a\<newline>http://b''"
    by (simp add: B_def)
  have f: "urandom (env_of (URLError [])) = seq0"
    by (simp add: env_of_def)
  from submit_links_body [OF a b, of key_form "env_of (URLError [])" client0 key_form]
    a b c d e f
  show ?thesis by simp
qed

text \<open>
  C4 as stated fails for a link with a character beyond Latin-1: the body of a part is
  encoded with \<open>latin-1\<close>, so \<open>submit\<close> with the links \<open>http://a\<close> and the euro sign (U+20AC) raises
  UnicodeEncodeError and uploads nothing.
\<close>

theorem submit_links_counterexample:
  "submit (env_of (URLError [])) None None (Some [S ''http://a'', [0x20AC]]) client0
   = (Some UnicodeEncodeError, client0, [])"
proof -
  have g: "given None None (Some [S ''http://a'', [0x20AC]]) = 1"
    by (simp add: given_def truthy_def)
  have n: "latin1_encode (join (S ''\<newline>'') [S ''http://a'', [0x20AC]]) = None"
    by (simp add: latin1_encode_def S_def)
  have l: "submit_links (Some [S ''http://a'', [0x20AC]]) key_form = Inl UnicodeEncodeError"
    by (rule submit_links_unencodable [OF _ n]) simp
  show ?thesis
    by (simp add: submit_not_rejected [OF g] submit_uri_def clear_response_samples
        base_form_client0 submit_file_def opt_field_def and_then_def l)
qed

section \<open>Clearing the response fields\<close>

lemma clear_response_fields:
  "msg (clear_response s) = None \<and> http_code (clear_response s) = None
   \<and> http_reason (clear_response s) = None \<and> response_body (clear_response s) = None
   \<and> response_type (clear_response s) = None \<and> xml_element_root (clear_response s) = None
   \<and> attachment (clear_response s) = None"
  by (simp add: clear_response_def)

lemma clear_response_config:
  "api_key (clear_response s) = api_key s \<and> agent (clear_response s) = agent s
   \<and> uri (clear_response s) = uri s \<and> timeout (clear_response s) = timeout s
   \<and> message (clear_response s) = message s"
  by (simp add: clear_response_def)

text \<open>
  C6. Every operation works on the instance with \<open>_msg\<close>, \<open>http_code\<close>, \<open>http_reason\<close>,
  \<open>response_body\<close>, \<open>response_type\<close>, \<open>xml_element_root\<close> and \<open>attachment\<close> set to
  \<open>None\<close>: two instances that differ in these seven fields only give the same exception,
  the same instance afterwards and the same file and network activity, so nothing a call
  leaves behind, failed or not, comes from an earlier response.
\<close>

theorem operations_clear_first:
  assumes "clear_response s = clear_response t"
  shows "msg (clear_response s) = None \<and> http_code (clear_response s) = None
         \<and> http_reason (clear_response s) = None \<and> response_body (clear_response s) = None
         \<and> response_type (clear_response s) = None \<and> xml_element_root (clear_response s) = None
         \<and> attachment (clear_response s) = None
         \<and> report env hash format url' s = report env hash format url' t
         \<and> verdict env hash url' s = verdict env hash url' t
         \<and> verdicts env hashes s = verdicts env hashes t
         \<and> verdicts_changed env date s = verdicts_changed env date t
         \<and> sample env hash s = sample env hash t
         \<and> pcap env hash platform s = pcap env hash platform t
         \<and> submit env file' url' links s = submit env file' url' links t
         \<and> change_request env hash verdict' email comment s
             = change_request env hash verdict' email comment t
         \<and> testfile env file_type s = testfile env file_type t"
proof -
  have "report env hash format url' s = report env hash format url' t"
    by (simp add: report_def assms)
  moreover have "verdict env hash url' s = verdict env hash url' t"
    by (simp add: verdict_def assms)
  moreover have "verdicts env hashes s = verdicts env hashes t"
    by (simp add: verdicts_def assms)
  moreover have "verdicts_changed env date s = verdicts_changed env date t"
    by (simp add: verdicts_changed_def assms)
  moreover have "sample env hash s = sample env hash t"
    by (simp add: sample_def assms)
  moreover have "pcap env hash platform s = pcap env hash platform t"
    by (simp add: pcap_def assms)
  moreover have "submit env file' url' links s = submit env file' url' links t"
    by (simp add: submit_def assms)
  moreover have "change_request env hash verdict' email comment s
                 = change_request env hash verdict' email comment t"
    by (simp add: change_request_def assms)
  moreover have "testfile env file_type s = testfile env file_type t"
    by (simp add: testfile_def assms)
  ultimately show ?thesis
    using clear_response_fields [of s] by blast
qed

text \<open>
  An instance that holds an earlier XML success, after a \<open>report\<close> that fails in the
  transport: nothing of the earlier response is left.
\<close>

lemma report_fails_clean:
  "report (env_of (URLError (S ''timed out''))) (Some (S ''abc'')) None None client0
   = (Some (PanWFapiError (Some (S ''timed out''))), client0\<lparr>msg := Some (S ''timed out'')\<rparr>,
      [UrlOpen \<lparr>url = S ''https://wildfire.paloaltonetworks.com/publicapi/get/report'',
                data = B ''apikey=ABC123&hash=abc'', req_headers = []\<rparr> None])"
proof -
  have q: "urlencode [(S ''apikey'', S ''ABC123''), (S ''hash'', S ''abc'')]
           = Some (S ''apikey=ABC123&hash=abc'')"
    by (simp add: urlencode_def quote_plus_def quote_plus_byte_def quote_byte_def
        always_safe_def utf8_char_def S_def)
  have e: "utf8_encode (S ''apikey=ABC123&hash=abc'') = Some (B ''apikey=ABC123&hash=abc'')"
    by (simp add: utf8_char_def S_def B_def)
  have k: "S ''apikey'' \<noteq> S ''hash''"
    by (simp add: S_def)
  have c: "api_key client0 = S ''ABC123''" "agent client0 = None" "timeout client0 = None"
    "uri client0 @ S ''/publicapi/get/report''
     = S ''https://wildfire.paloaltonetworks.com/publicapi/get/report''"
    by (simp_all add: client0_def S_def)
  show ?thesis
    by (simp add: report_def clear_response_samples k c q e Let_def base_query_def opt_item_def
        send_query_def request_and_set_def api_request_def env_of_def)
qed

theorem operations_clear_first_witness:
  "clear_response stale_client = clear_response client0
   \<and> response_body stale_client = Some (S ''<a/>'')
   \<and> report (env_of (URLError (S ''timed out''))) (Some (S ''abc'')) None None stale_client
      = (Some (PanWFapiError (Some (S ''timed out''))), client0\<lparr>msg := Some (S ''timed out'')\<rparr>,
         [UrlOpen \<lparr>url = S ''https://wildfire.paloaltonetworks.com/publicapi/get/report'',
                   data = B ''apikey=ABC123&hash=abc'', req_headers = []\<rparr> None])"
proof -
  have a: "clear_response stale_client = clear_response client0"
    by (simp add: clear_response_samples)
  have b: "response_body stale_client = Some (S ''<a/>'')"
    by (simp add: stale_client_def)
  from operations_clear_first [OF a, of "env_of (URLError (S ''timed out''))"
      "Some (S ''abc'')" None None]
  have "report (env_of (URLError (S ''timed out''))) (Some (S ''abc'')) None None stale_client
        = report (env_of (URLError (S ''timed out''))) (Some (S ''abc'')) None None client0"
    by blast
  with a b report_fails_clean show ?thesis by simp
qed


end
